theory Spec2Isabelle
  imports Main
begin

section \<open>JavaScript values, errors and promises\<close>

text \<open>
  The value bound to \<open>existing\<close> in \<open>index.js\<close> is \<open>undefined\<close>, \<open>false\<close> or a
  path string.  Only a non-empty string is truthy.
\<close>

datatype jsval = JUndefined | JFalse | JStr string

fun truthy :: "jsval \<Rightarrow> bool" where
  "truthy (JStr s) = (s \<noteq> [])"
| "truthy JUndefined = False"
| "truthy JFalse = False"

text \<open>
  A property read from an object the program does not build itself (a field of
  \<open>package.json\<close>, a property of the array returned by \<open>readdir\<close>): a string, some
  other truthy value (object, function, non-zero number) or a falsy non-string value
  (\<open>undefined\<close>, \<open>null\<close>, \<open>false\<close>, \<open>0\<close>).
\<close>

datatype jsprop = PStr string | PTruthy | PFalsy

fun truthy_prop :: "jsprop \<Rightarrow> bool" where
  "truthy_prop (PStr s) = (s \<noteq> [])"
| "truthy_prop PTruthy = True"
| "truthy_prop PFalsy = False"

text \<open>\<open>a || b\<close> on property values.\<close>

definition or_else :: "jsprop \<Rightarrow> jsprop \<Rightarrow> jsprop" where
  "or_else a b = (if truthy_prop a then a else b)"

text \<open>Truthiness of an optional string (\<open>undefined\<close> and \<open>''\<close> are falsy).\<close>

fun truthy_s :: "string option \<Rightarrow> bool" where
  "truthy_s None = False"
| "truthy_s (Some s) = (s \<noteq> [])"

text \<open>An optional string inside a template literal: \<open>undefined\<close> prints as its name.\<close>

fun tmpl :: "string option \<Rightarrow> string" where
  "tmpl None = ''undefined''"
| "tmpl (Some s) = s"

text \<open>
  The fields of an error object that \<open>index.js\<close> reads or writes: \<open>err.message\<close>,
  \<open>err.code\<close>, \<open>err.exitCode\<close> and \<open>err.isOperational\<close>.
\<close>

record jserror =
  message :: string
  code :: "string option"
  exitCode :: "int option"
  isOperational :: bool

text \<open>\<open>new Error(msg)\<close>.\<close>

definition Error :: "string \<Rightarrow> jserror" where
  "Error msg = \<lparr>message = msg, code = None, exitCode = None, isOperational = False\<rparr>"

text \<open>Truthiness of \<open>err.exitCode\<close>: defined and not zero.\<close>

fun truthy_code :: "int option \<Rightarrow> bool" where
  "truthy_code None = False"
| "truthy_code (Some c) = (c \<noteq> 0)"

text \<open>
  A promise, once run, is fulfilled with a value, rejected with an error, or never
  settles (\<open>Pending\<close>).
\<close>

datatype 'a outcome = Fulfilled 'a | Rejected jserror | Pending

section \<open>The request, the process and the host\<close>

text \<open>
  The parsed arguments (\<open>argv\<close>, also passed around as \<open>opts\<close>).  Flags that the code
  only tests for truthiness are booleans; \<open>install\<close> is compared with \<open>=== false\<close>
  and keeps its three values.
\<close>

record argv =
  shell_auto_fallback :: "string option"
  call :: "string option"
  command :: "string option"
  package :: "string list"
  q :: bool
  packageRequested :: bool
  npxPkg :: "string option"
  isLocal :: bool
  cmdHadVersion :: bool
  ignoreExisting :: bool
  install :: "bool option"
  cache :: "string option"
  userconfig :: "string option"
  npm :: string
  shell :: "string option"
  noYargs :: bool
  cmdOpts :: "string list"

text \<open>
  The trace is ghost state: it records, oldest first, the calls the program makes to
  its collaborators, and the entry into \<open>ensurePackages\<close>.
\<close>

datatype event =
    GetPrefix string
  | Which string
  | Exec string "string list"
  | EnsurePackages "string list"
  | OnExit string
  | Rimraf string
  | Spawn string "string list"
  | UpdateNotifier string
  | Readdir string
  | Stat string
  | Require string
  | Open string
  | Read nat nat nat
  | Close nat
  | YargsReset
  | RunMain "string list"
  | RunCommand jsval

text \<open>
  The mutable state of the process: \<open>process.env\<close>, \<open>process.exitCode\<close>,
  \<open>process.argv\<close>, and what was written with \<open>console.error\<close> and \<open>console.log\<close>.
\<close>

record proc =
  env :: "string \<rightharpoonup> string"
  process_exitCode :: "int option"
  process_argv :: "string list"
  stderr :: "string list"
  stdout :: "string list"
  trace :: "event list"

type_synonym 'a promise = "proc \<Rightarrow> 'a outcome \<times> proc"

text \<open>The fields of \<open>package.json\<close> that \<open>findNodeScript\<close> reads.\<close>

record manifest =
  bin :: jsprop
  main :: jsprop

text \<open>
  The install report of npm, when it is an object: the lengths of its \<open>added\<close> and
  \<open>updated\<close> arrays, where present.  \<open>ensurePackages\<close> adds \<open>prefix\<close> and \<open>bin\<close> to
  it.
\<close>

record install_report =
  added :: "nat option"
  updated :: "nat option"

text \<open>
  What \<open>installPackages\<close> makes of the output of the install: nothing usable (no
  output, output that \<open>JSON.parse\<close> rejects, or a falsy value such as \<open>null\<close>), an
  object, or a truthy value that is not an object (a number, a string, \<open>true\<close>).
\<close>

datatype parsed = Falsy | Object install_report | Primitive

record install_info = install_report +
  info_prefix :: string
  info_bin :: string

text \<open>
  The host: the platform, the Node built-ins and the modules required by \<open>index.js\<close>
  (\<open>which\<close>, \<open>rimraf\<close>, \<open>dotenv\<close>, \<open>./child\<close>, \<open>./get-prefix.js\<close>,
  \<open>./auto-fallback.js\<close>), each as the answer it gives.  Lookups and child processes
  see the environment they are started in.
\<close>

record host =
  win32 :: bool
  pid :: nat
  cwd :: string
  module_runMain :: bool
  elapsed :: string
  help_text :: string
  env_settles_first :: bool
  array_has_property :: "string \<Rightarrow> bool"
  js_regexp :: "string \<Rightarrow> jserror + (string \<Rightarrow> bool)"
  path_TypeError :: jserror
  auto_fallback :: "string \<Rightarrow> string option \<Rightarrow> argv \<Rightarrow> string option"
  get_prefix :: "string \<Rightarrow> string outcome"
  path_join :: "string list \<Rightarrow> string"
  path_resolve :: "string \<Rightarrow> string \<Rightarrow> string"
  path_extname :: "string \<Rightarrow> string"
  which :: "(string \<rightharpoonup> string) \<Rightarrow> string \<Rightarrow> string outcome"
  child_exec :: "(string \<rightharpoonup> string) \<Rightarrow> string \<Rightarrow> string list \<Rightarrow> string outcome"
  child_escapeArg :: "string \<Rightarrow> string"
  child_spawn :: "(string \<rightharpoonup> string) \<Rightarrow> string \<Rightarrow> string list \<Rightarrow> bool \<Rightarrow> string outcome"
  child_runCommand :: "(string \<rightharpoonup> string) \<Rightarrow> jsval \<Rightarrow> argv \<Rightarrow> unit outcome"
  json_parse :: "string \<Rightarrow> parsed"
  property_TypeError :: jserror
  string_trim :: "string \<Rightarrow> string"
  dotenv_parse :: "string \<Rightarrow> (string \<rightharpoonup> string)"
  rimraf :: "string \<Rightarrow> unit outcome"
  fs_readdir :: "string \<Rightarrow> string list outcome"
  fs_stat :: "string \<Rightarrow> bool outcome"
  fs_open :: "string \<Rightarrow> nat outcome"
  fs_read :: "nat \<Rightarrow> nat \<Rightarrow> nat \<Rightarrow> string outcome"
  fs_close :: "nat \<Rightarrow> unit outcome"
  require_package :: "string \<Rightarrow> manifest option"
  run_main :: "string list \<Rightarrow> jserror option"

section \<open>Promise combinators\<close>

definition resolved :: "'a \<Rightarrow> 'a promise" where
  "resolved x = (\<lambda>s. (Fulfilled x, s))"

definition rejected :: "jserror \<Rightarrow> 'a promise" where
  "rejected e = (\<lambda>s. (Rejected e, s))"

text \<open>\<open>p.then(f)\<close>: a rejection passes through.\<close>

definition then_p :: "'a promise \<Rightarrow> ('a \<Rightarrow> 'b promise) \<Rightarrow> 'b promise" where
  "then_p p f = (\<lambda>s. case p s of
      (Fulfilled x, s') \<Rightarrow> f x s'
    | (Rejected e, s') \<Rightarrow> (Rejected e, s')
    | (Pending, s') \<Rightarrow> (Pending, s'))"

text \<open>\<open>p.then(f, g)\<close>: \<open>g\<close> handles a rejection of \<open>p\<close>, not one of \<open>f\<close>.\<close>

definition then_else :: "'a promise \<Rightarrow> ('a \<Rightarrow> 'b promise) \<Rightarrow> (jserror \<Rightarrow> 'b promise) \<Rightarrow> 'b promise" where
  "then_else p f g = (\<lambda>s. case p s of
      (Fulfilled x, s') \<Rightarrow> f x s'
    | (Rejected e, s') \<Rightarrow> g e s'
    | (Pending, s') \<Rightarrow> (Pending, s'))"

text \<open>\<open>p.catch(g)\<close>.\<close>

definition catch_p :: "'a promise \<Rightarrow> (jserror \<Rightarrow> 'a promise) \<Rightarrow> 'a promise" where
  "catch_p p g = then_else p resolved g"

text \<open>A call to a collaborator: the event is recorded, the answer is the host's.\<close>

definition emit :: "event \<Rightarrow> proc \<Rightarrow> proc" where
  "emit e s = s\<lparr>trace := trace s @ [e]\<rparr>"

definition ask :: "event \<Rightarrow> 'a outcome \<Rightarrow> 'a promise" where
  "ask e r = (\<lambda>s. (r, emit e s))"

text \<open>
  \<open>Promise.all([a, b])\<close>: both operations are started, \<open>a\<close> first; the result is
  rejected as soon as one of them is, and which rejection comes first when both fail is
  the host's.
\<close>

definition all2 :: "bool \<Rightarrow> 'a promise \<Rightarrow> 'b promise \<Rightarrow> ('a \<times> 'b) promise" where
  "all2 second_first a b = (\<lambda>s.
     case a s of (ra, s1) \<Rightarrow>
     case b s1 of (rb, s2) \<Rightarrow>
       ((case (ra, rb) of
           (Fulfilled x, Fulfilled y) \<Rightarrow> Fulfilled (x, y)
         | (Rejected e, Rejected f) \<Rightarrow> Rejected (if second_first then f else e)
         | (Rejected e, _) \<Rightarrow> Rejected e
         | (_, Rejected f) \<Rightarrow> Rejected f
         | _ \<Rightarrow> Pending), s2))"

section \<open>getExistingPath\<close>

definition which_p :: "host \<Rightarrow> string \<Rightarrow> string promise" where
  "which_p w c = (\<lambda>s. ask (Which c) (which w (env s) c) s)"

definition getExistingPath :: "host \<Rightarrow> string \<Rightarrow> argv \<Rightarrow> jsval promise" where
  "getExistingPath w cmd opts =
     (if isLocal opts then resolved (JStr cmd)
      else if cmdHadVersion opts \<or> packageRequested opts \<or> ignoreExisting opts
      then resolved JFalse
      else then_else (which_p w cmd) (\<lambda>p. resolved (JStr p))
        (\<lambda>err.
           if code err = Some ''ENOENT'' then
             (if install opts = Some False
              then rejected (err\<lparr>exitCode := Some 127\<rparr>)
              else resolved JUndefined)
           else rejected err))"

section \<open>Strings\<close>

text \<open>Decimal rendering of a number inside a template literal.\<close>

fun show_nat :: "nat \<Rightarrow> string" where
  "show_nat n =
     (if n < 10 then [''0123456789'' ! n]
      else show_nat (n div 10) @ [''0123456789'' ! (n mod 10)])"

declare show_nat.simps [simp del]

definition show_int :: "int \<Rightarrow> string" where
  "show_int i = (if i < 0 then ''-'' @ show_nat (nat (- i)) else show_nat (nat i))"

text \<open>
  Modelled from the spec: the message tag \<open>Y()\<close> of \<open>./y.js\<close> is not under \<open>src/\<close>.
  The spec names internationalized message formatting as an external collaborator
  outside the core, so a tagged template is taken to render as the plain template,
  untranslated.
\<close>

definition Y :: "string \<Rightarrow> string" where
  "Y rendered = rendered"

text \<open>An array inside a template literal: its elements joined with commas.\<close>

fun join_comma :: "string list \<Rightarrow> string" where
  "join_comma [] = []"
| "join_comma [x] = x"
| "join_comma (x # y # ys) = x @ '','' @ join_comma (y # ys)"

text \<open>Lower case of the ASCII letters; every other byte is left alone.\<close>

definition lower_char :: "char \<Rightarrow> char" where
  "lower_char c =
     (case map_of (zip ''ABCDEFGHIJKLMNOPQRSTUVWXYZ'' ''abcdefghijklmnopqrstuvwxyz'') c of
        Some l \<Rightarrow> l
      | None \<Rightarrow> c)"

definition lower :: "string \<Rightarrow> string" where
  "lower s = map lower_char s"

text \<open>
  The characters with a meaning in the syntax of regular expressions, and the bytes
  that are not ASCII.  A command name free of both is matched literally by
  \<open>new RegExp\<close>.
\<close>

definition regexp_syntax_char :: "char \<Rightarrow> bool" where
  "regexp_syntax_char c = (c \<in> set (CHR 0x5C # ''^$.*+?()[]{}|''))"

definition ascii_char :: "char \<Rightarrow> bool" where
  "ascii_char c = ((of_char c :: nat) < 128)"

definition literal_name :: "string \<Rightarrow> bool" where
  "literal_name s = list_all (\<lambda>c. ascii_char c \<and> \<not> regexp_syntax_char c) s"

text \<open>
  \<open>new RegExp(`^${command}(?:\\.cmd)?$`, 'i')\<close>, as the test \<open>b.match(cmd)\<close>.  For a
  literal command name the expression matches the name, or the name followed by
  \<open>.cmd\<close>, without regard to the case of ASCII letters.  Any other command name is
  read as a regular expression by the engine of the host, which may reject it.
\<close>

definition cmd_regexp :: "host \<Rightarrow> string \<Rightarrow> jserror + (string \<Rightarrow> bool)" where
  "cmd_regexp w cmd =
     (if literal_name cmd
      then Inr (\<lambda>b. lower b = lower cmd \<or> lower b = lower cmd @ ''.cmd'')
      else js_regexp w (''^'' @ cmd @ ''(?:'' @ [CHR 0x5C] @ ''.cmd)?$''))"

section \<open>Arrays\<close>

text \<open>
  A property key that is an array index: \<open>0\<close>, or decimal digits with no leading zero.
\<close>

definition is_digit :: "char \<Rightarrow> bool" where
  "is_digit c = (c \<in> set ''0123456789'')"

fun digit_val :: "char \<Rightarrow> nat" where
  "digit_val c = length (takeWhile (\<lambda>d. d \<noteq> c) ''0123456789'')"

definition canonical_index :: "string \<Rightarrow> nat option" where
  "canonical_index k =
     (if k = [] \<or> \<not> list_all is_digit k \<or> (hd k = CHR ''0'' \<and> k \<noteq> ''0'') then None
      else Some (foldl (\<lambda>acc c. 10 * acc + digit_val c) 0 k))"

text \<open>\<open>bins[i]\<close> with a number: the element, or \<open>undefined\<close> past the end.\<close>

definition array_index :: "string list \<Rightarrow> nat \<Rightarrow> jsprop" where
  "array_index xs i = (if i < length xs then PStr (xs ! i) else PFalsy)"

text \<open>
  \<open>bins[k]\<close> with a string or \<open>undefined\<close> as the key: an index reads the element; any
  other key reads a property of the array object (\<open>length\<close>, the methods of its
  prototype), none of which is a string, or is \<open>undefined\<close>.
\<close>

definition array_get :: "host \<Rightarrow> string list \<Rightarrow> string option \<Rightarrow> jsprop" where
  "array_get w xs k =
     (case canonical_index (tmpl k) of
        Some i \<Rightarrow> array_index xs i
      | None \<Rightarrow> if array_has_property w (tmpl k) then PTruthy else PFalsy)"

section \<open>findNodeScript\<close>

definition opts_isLocal :: "argv option \<Rightarrow> bool" where
  "opts_isLocal opts = (case opts of None \<Rightarrow> False | Some av \<Rightarrow> isLocal av)"

definition line :: string where
  "line = ''#!/usr/bin/env node'' @ [CHR 0x0A]"

definition bytecount :: nat where
  "bytecount = length line"

text \<open>\<open>Buffer.alloc(n)\<close>: \<open>n\<close> zero bytes.\<close>

definition Buffer_alloc :: "nat \<Rightarrow> string" where
  "Buffer_alloc n = replicate n (CHR 0x00)"

text \<open>
  \<open>fs.read(fd, buf, offset, length, position)\<close> stores the bytes it read, at most
  \<open>length\<close> of them, into \<open>buf\<close> from \<open>offset\<close> on and leaves the rest of \<open>buf\<close> as it
  was.  The buffer is a value here, so the read returns the buffer it filled.
\<close>

definition buf_store :: "string \<Rightarrow> nat \<Rightarrow> nat \<Rightarrow> string \<Rightarrow> string" where
  "buf_store buf offset len bytes =
     (let got = take (min len (length buf - offset)) bytes
      in take offset buf @ got @ drop (offset + length got) buf)"

definition fs_read_p :: "host \<Rightarrow> nat \<Rightarrow> string \<Rightarrow> nat \<Rightarrow> nat \<Rightarrow> nat \<Rightarrow> string promise" where
  "fs_read_p w fd buf offset len pos =
     (\<lambda>s. case fs_read w fd len pos of
        Fulfilled bytes \<Rightarrow> (Fulfilled (buf_store buf offset len bytes), emit (Read fd len pos) s)
      | Rejected e \<Rightarrow> (Rejected e, emit (Read fd len pos) s)
      | Pending \<Rightarrow> (Pending, emit (Read fd len pos) s))"

text \<open>
  The shebang sniff (the last branch of \<open>findNodeScript\<close>).  \<open>buf.toString('utf8') === line\<close>
  holds exactly when the bytes of the buffer are those of \<open>line\<close>, which is ASCII.
\<close>

definition sniff :: "host \<Rightarrow> string \<Rightarrow> jsval promise" where
  "sniff w existing =
     (let buf = Buffer_alloc bytecount in
      then_p
        (then_p (ask (Open existing) (fs_open w existing)) (\<lambda>fd.
           then_else (fs_read_p w fd buf 0 bytecount 0)
             (\<lambda>buf'. then_p (ask (Close fd) (fs_close w fd)) (\<lambda>_. resolved buf'))
             (\<lambda>err. then_p (ask (Close fd) (fs_close w fd)) (\<lambda>_. rejected err))))
        (\<lambda>buf'. resolved (if buf' = line then JStr existing else JFalse)))"

text \<open>
  The \<open>try\<close> block of \<open>findNodeScript\<close> for a package directory; \<open>recurse\<close> is
  \<open>findNodeScript\<close> itself, called on the entry point.  Only what the block throws
  before it returns its promise reaches the \<open>catch\<close>: a manifest that \<open>require\<close>
  cannot load, and an entry point that \<open>path.resolve\<close> refuses because it is not a
  string.
\<close>

definition package_entry :: "host \<Rightarrow> string \<Rightarrow> (jsval \<Rightarrow> jsval promise) \<Rightarrow> jsval promise" where
  "package_entry w existing recurse = (\<lambda>s.
     let file = path_resolve w existing ''package.json''; s1 = emit (Require file) s in
     case require_package w file of
       None \<Rightarrow> (Rejected (Error (Y (''command not found: '' @ existing))), s1)
     | Some pkg \<Rightarrow>
         (case or_else (or_else (bin pkg) (main pkg)) (PStr ''index.js'') of
            PStr entry \<Rightarrow>
              (let target = path_resolve w existing entry in
               then_p (recurse (JStr target)) (\<lambda>script.
                 if truthy script then resolved script
                 else rejected (Error (Y (''command not found: '' @ target)))) s1)
          | _ \<Rightarrow> (Rejected (Error (Y (''command not found: '' @ existing))), s1)))"

text \<open>
  \<open>findNodeScript\<close> calls itself on the entry point of a package directory, and a
  manifest may point back at its own directory: the first argument bounds the depth,
  and a call that exceeds it does not settle.
\<close>

fun findNodeScript :: "nat \<Rightarrow> host \<Rightarrow> jsval \<Rightarrow> argv option \<Rightarrow> jsval promise" where
  "findNodeScript n w JUndefined opts = resolved JFalse"
| "findNodeScript n w JFalse opts = resolved JFalse"
| "findNodeScript 0 w (JStr existing) opts =
     (if existing = [] then resolved JFalse else (\<lambda>s. (Pending, s)))"
| "findNodeScript (Suc n) w (JStr existing) opts =
     (if existing = [] then resolved JFalse
      else then_p (ask (Stat existing) (fs_stat w existing)) (\<lambda>isDirectory.
        if opts_isLocal opts \<and> path_extname w existing = ''.js'' then
          resolved (JStr existing)
        else if opts_isLocal opts \<and> isDirectory then
          package_entry w existing (\<lambda>target. findNodeScript n w target opts)
        else if \<not> win32 w then sniff w existing
        else resolved JUndefined))"

declare findNodeScript.simps [simp del]

section \<open>execCommand\<close>

text \<open>\<open>process.argv[1]\<close>.\<close>

fun argv1 :: "string list \<Rightarrow> jsval" where
  "argv1 (a0 # a1 # rest) = JStr a1"
| "argv1 _ = JUndefined"

text \<open>A value where a string is expected.\<close>

fun js_String :: "jsval \<Rightarrow> string" where
  "js_String (JStr p) = p"
| "js_String JFalse = ''false''"
| "js_String JUndefined = ''undefined''"

text \<open>The condition under which \<open>execCommand\<close> lets the script take over the process.\<close>

definition takes_over :: "host \<Rightarrow> argv \<Rightarrow> proc \<Rightarrow> jsval \<Rightarrow> bool" where
  "takes_over w av s existing =
     (truthy existing \<and> module_runMain w \<and> \<not> truthy_s (shell av)
      \<and> existing \<noteq> argv1 (process_argv s))"

text \<open>
  The takeover: \<open>process.argv\<close> becomes the node binary (\<open>process.argv[0]\<close>, which
  a running process always has), the script and the options of the command, and
  \<open>Module.runMain()\<close> runs the script, which may throw.
\<close>

definition runMain :: "host \<Rightarrow> argv \<Rightarrow> jsval \<Rightarrow> unit promise" where
  "runMain w av existing = (\<lambda>s.
     let s1 = (if \<not> noYargs av then emit YargsReset s else s);
         args = take 1 (process_argv s1) @ [js_String existing] @ cmdOpts av;
         s2 = emit (RunMain args) (s1\<lparr>process_argv := args\<rparr>)
     in case run_main w args of
          None \<Rightarrow> (Fulfilled (), s2)
        | Some e \<Rightarrow> (Rejected e, s2))"

definition runCommand :: "host \<Rightarrow> jsval \<Rightarrow> argv \<Rightarrow> unit promise" where
  "runCommand w existing av =
     catch_p (\<lambda>s. ask (RunCommand existing) (child_runCommand w (env s) existing av) s)
       (\<lambda>err. if isOperational err \<and> truthy_code (exitCode err)
               then (\<lambda>s. (Fulfilled (), s\<lparr>process_exitCode := exitCode err\<rparr>))
               else rejected err)"

definition execCommand :: "nat \<Rightarrow> host \<Rightarrow> jsval \<Rightarrow> argv \<Rightarrow> unit promise" where
  "execCommand n w existing0 av =
     then_p (findNodeScript n w existing0 (Some av)) (\<lambda>existing s.
       if takes_over w av s existing then runMain w av existing s
       else runCommand w existing av s)"

section \<open>The installer\<close>

definition PATH_SEP :: "host \<Rightarrow> string" where
  "PATH_SEP w = (if win32 w then '';'' else '':'')"

text \<open>\<open>process.env.PATH = `${dir}${PATH_SEP}${process.env.PATH}`\<close>.\<close>

definition prepend_PATH :: "host \<Rightarrow> string \<Rightarrow> proc \<Rightarrow> proc" where
  "prepend_PATH w dir s =
     s\<lparr>env := (env s)(''PATH'' \<mapsto> dir @ PATH_SEP w @ tmpl (env s ''PATH''))\<rparr>"

definition localBinPath :: "host \<Rightarrow> string \<Rightarrow> string promise" where
  "localBinPath w dir =
     then_p (ask (GetPrefix dir) (get_prefix w dir)) (\<lambda>prefix.
       resolved (path_join w [prefix, ''node_modules'', ''.bin'']))"

definition exec_p :: "host \<Rightarrow> string \<Rightarrow> string list \<Rightarrow> string promise" where
  "exec_p w file args = (\<lambda>s. ask (Exec file args) (child_exec w (env s) file args) s)"

definition getEnv :: "host \<Rightarrow> argv \<Rightarrow> (string \<rightharpoonup> string) promise" where
  "getEnv w opts =
     then_p (exec_p w (npm opts) [''run'', ''env'', ''--parseable''])
       (\<lambda>out. resolved (dotenv_parse w out))"

definition getNpmCache :: "host \<Rightarrow> argv \<Rightarrow> string promise" where
  "getNpmCache w opts =
     then_p
       (then_p (which_p w (npm opts)) (\<lambda>npmPath.
          exec_p w npmPath
            ([''config'', ''get'', ''cache'', ''--parseable''] @
             (case userconfig opts of
                Some u \<Rightarrow> if u \<noteq> [] then [''--userconfig'', child_escapeArg w u] else []
              | None \<Rightarrow> []))))
       (\<lambda>c. resolved (string_trim w c))"

definition buildArgs :: "string list \<Rightarrow> string \<Rightarrow> argv \<Rightarrow> string list" where
  "buildArgs specs prefix opts =
     [''install''] @ specs @ [''--global'', ''--prefix'', prefix] @
     (case cache opts of Some c \<Rightarrow> if c \<noteq> [] then [''--cache'', c] else [] | None \<Rightarrow> []) @
     (case userconfig opts of
        Some u \<Rightarrow> if u \<noteq> [] then [''--userconfig'', u] else [] | None \<Rightarrow> []) @
     [''--loglevel'', ''error'', ''--json'']"

text \<open>The message of a failed install.\<close>

definition install_failed_message :: "string list \<Rightarrow> int \<Rightarrow> string" where
  "install_failed_message specs c =
     Y (''Install for '' @ join_comma specs @ '' failed with code '' @ show_int c)"

text \<open>The rejection handler of the install subprocess in \<open>installPackages\<close>.\<close>

definition install_failure :: "string list \<Rightarrow> jserror \<Rightarrow> jserror" where
  "install_failure specs err =
     (case exitCode err of
        Some c \<Rightarrow> if c \<noteq> 0 then err\<lparr>message := install_failed_message specs c\<rparr> else err
      | None \<Rightarrow> err)"

definition installPackages :: "host \<Rightarrow> string list \<Rightarrow> string \<Rightarrow> argv \<Rightarrow> parsed promise" where
  "installPackages w specs prefix opts =
     (let args = buildArgs specs prefix opts in
      then_p (which_p w (npm opts)) (\<lambda>npmPath.
        then_else
          (\<lambda>s. ask (Spawn npmPath args) (child_spawn w (env s) npmPath args (q opts)) s)
          (\<lambda>out. resolved (if out \<noteq> [] then json_parse w out else Falsy))
          (\<lambda>err. rejected (install_failure specs err))))"

text \<open>
  The last handler of \<open>ensurePackages\<close>: the search path is set first; then the report,
  or a fresh object in place of a falsy one, is given \<open>prefix\<close> and \<open>bin\<close>.  The file is
  in strict mode, where the assignment to a property of a primitive value throws.
\<close>

definition install_done :: "host \<Rightarrow> string \<Rightarrow> string \<Rightarrow> parsed \<Rightarrow> install_info promise" where
  "install_done w prefix bins info = (\<lambda>s.
     case info of
       Falsy \<Rightarrow>
         (Fulfilled \<lparr>added = None, updated = None, info_prefix = prefix, info_bin = bins\<rparr>,
          prepend_PATH w bins s)
     | Object i \<Rightarrow>
         (Fulfilled \<lparr>added = added i, updated = updated i, info_prefix = prefix, info_bin = bins\<rparr>,
          prepend_PATH w bins s)
     | Primitive \<Rightarrow> (Rejected (property_TypeError w), prepend_PATH w bins s))"

definition ensurePackages :: "host \<Rightarrow> string list \<Rightarrow> argv \<Rightarrow> install_info promise" where
  "ensurePackages w specs opts =
     then_p
       (\<lambda>s. (if truthy_s (cache opts) then resolved (tmpl (cache opts)) else getNpmCache w opts)
               (emit (EnsurePackages specs) s))
       (\<lambda>c. let prefix = path_join w [c, ''_npx'', show_nat (pid w)];
                 bins = (if win32 w then prefix else path_join w [prefix, ''bin''])
             in then_p
                  (then_p (\<lambda>s. ask (Rimraf bins) (rimraf w bins) (emit (OnExit prefix) s))
                     (\<lambda>_. installPackages w specs prefix opts))
                  (install_done w prefix bins))"

section \<open>The command locator\<close>

text \<open>
  The handlers of \<open>readdir(results.bin)\<close> in \<open>npx\<close>.  \<open>bins.find\<close> gives the first
  matching entry itself, or \<open>undefined\<close>, and that value is then used as a key into
  \<open>bins\<close>.
\<close>

definition commandLocator :: "host \<Rightarrow> string \<Rightarrow> string \<Rightarrow> jsval promise" where
  "commandLocator w cmd dir =
     then_else (ask (Readdir dir) (fs_readdir w dir))
       (\<lambda>bins.
          case cmd_regexp w cmd of
            Inl e \<Rightarrow> rejected e
          | Inr matches \<Rightarrow>
              (let matching = find matches bins in
               case or_else (array_get w bins matching) (array_index bins 0) of
                 PStr b \<Rightarrow> resolved (JStr (path_resolve w dir b))
               | _ \<Rightarrow> rejected (path_TypeError w)))
       (\<lambda>err.
          if code err = Some ''ENOENT''
          then rejected (Error (Y (''command not found: '' @ cmd)))
          else rejected err)"

section \<open>npx\<close>

text \<open>An array is truthy, whatever its length.\<close>

definition truthy_array :: "'a list \<Rightarrow> bool" where
  "truthy_array xs = True"

text \<open>The condition under which \<open>npx\<close> installs packages.\<close>

definition installs :: "argv \<Rightarrow> jsval \<Rightarrow> bool" where
  "installs av existing = ((\<not> truthy existing \<and> \<not> truthy_s (call av)) \<or> packageRequested av)"

definition installed_message :: "host \<Rightarrow> nat \<Rightarrow> string" where
  "installed_message w n = Y (''npx: installed '' @ show_nat n @ '' in '' @ elapsed w @ ''s'')"

text \<open>The handler of \<open>Promise.all\<close> in \<open>npx\<close>: the decision to install.\<close>

definition resolve_existing :: "host \<Rightarrow> argv \<Rightarrow> jsval \<times> (string \<rightharpoonup> string) option \<Rightarrow> jsval promise" where
  "resolve_existing w av args = (\<lambda>s.
     let existing = fst args;
         s1 = (case snd args of Some newEnv \<Rightarrow> s\<lparr>env := newEnv\<rparr> | None \<Rightarrow> s)
     in if installs av existing then
          then_p (ensurePackages w (package av) av) (\<lambda>results s3.
            let s4 = (case (added results, updated results) of
                        (Some a, Some u) \<Rightarrow>
                          if \<not> q av then s3\<lparr>stderr := stderr s3 @ [installed_message w (a + u)]\<rparr>
                          else s3
                      | _ \<Rightarrow> s3)
            in if truthy_s (command av) \<and> \<not> truthy existing \<and> \<not> packageRequested av
                  \<and> length (package av) = 1
               then commandLocator w (tmpl (command av)) (info_bin results) s4
               else (Fulfilled existing, s4))
            (if truthy_s (npxPkg av) then emit (UpdateNotifier (tmpl (npxPkg av))) s1 else s1)
        else (Fulfilled existing, s1))"

text \<open>The final \<open>catch\<close> of \<open>npx\<close>.\<close>

definition report_failure :: "argv \<Rightarrow> jserror \<Rightarrow> unit promise" where
  "report_failure av err = (\<lambda>s.
     (Fulfilled (),
      s\<lparr>stderr := (if \<not> q av then stderr s @ [message err] else stderr s),
        process_exitCode :=
          (if truthy_code (exitCode err) then exitCode err else Some 1)\<rparr>))"

text \<open>\<open>argv.command && getExistingPath(argv.command, argv)\<close>.\<close>

definition existing_path :: "host \<Rightarrow> argv \<Rightarrow> jsval promise" where
  "existing_path w av =
     (case command av of
        None \<Rightarrow> resolved JUndefined
      | Some c \<Rightarrow> if c \<noteq> [] then getExistingPath w c av else resolved (JStr c))"

text \<open>\<open>argv.call && getEnv(argv)\<close>; a falsy value stands for no new environment.\<close>

definition new_env :: "host \<Rightarrow> argv \<Rightarrow> (string \<rightharpoonup> string) option promise" where
  "new_env w av =
     (if truthy_s (call av) then then_p (getEnv w av) (\<lambda>e. resolved (Some e))
      else resolved None)"

text \<open>The handler of \<open>localBinPath\<close> in \<open>npx\<close>: everything after the local prefix is known.\<close>

definition npx_main :: "nat \<Rightarrow> host \<Rightarrow> argv \<Rightarrow> string \<Rightarrow> unit promise" where
  "npx_main n w av local = (\<lambda>s.
     catch_p
       (then_p
          (then_p (all2 (env_settles_first w) (existing_path w av) (new_env w av))
             (resolve_existing w av))
          (\<lambda>existing. execCommand n w existing av))
       (report_failure av)
       (if local \<noteq> [] then prepend_PATH w local s else s))"

definition npx :: "nat \<Rightarrow> host \<Rightarrow> argv \<Rightarrow> unit promise" where
  "npx n w av = (\<lambda>s.
     case shell_auto_fallback av of
       Some sh \<Rightarrow>
         (if truthy_s (auto_fallback w sh (env s ''SHELL'') av)
          then (Fulfilled (), s\<lparr>stdout := stdout s @ [tmpl (auto_fallback w sh (env s ''SHELL'') av)]\<rparr>)
          else (Fulfilled (), s\<lparr>process_exitCode := Some 1\<rparr>))
     | None \<Rightarrow>
         if \<not> truthy_s (call av) \<and> (\<not> truthy_s (command av) \<or> \<not> truthy_array (package av))
         then (Fulfilled (),
               (if \<not> q av
                then s\<lparr>stderr := stderr s @ [Y ([CHR 0x0A] @ ''ERROR: You must supply a command.'' @ [CHR 0x0A]), help_text w]\<rparr>
                else s)\<lparr>process_exitCode := Some 1\<rparr>)
         else then_p (localBinPath w (cwd w)) (npx_main n w av) s)"

section \<open>A concrete host\<close>

text \<open>
  A POSIX host with a small file system, on which the definitions above can be run:
  a package directory \<open>/proj/pkg\<close> whose manifest names \<open>lib.txt\<close> as its main
  module, a node script \<open>/proj/tool\<close>, a short file, a script without a shebang line,
  two files whose first line differs from the shebang line in case or in white space,
  a binary, and a directory \<open>/proj/broken\<close> without a readable manifest.
\<close>

definition demo_files :: "(string \<times> string) list" where
  "demo_files =
     [(''/proj/pkg/lib.txt'', ''hello''),
      (''/proj/tool'', line @ ''console.log(1)''),
      (''/proj/a.js'', ''console.log(2)''),
      (''/proj/Tool'', ''#!/usr/bin/env NODE'' @ [CHR 0x0A] @ ''console.log(3)''),
      (''/proj/tool2'', ''#!/usr/bin/env node '' @ [CHR 0x0A] @ ''console.log(4)''),
      (''/bin/ls'', [CHR 0x7F] @ ''ELF'')]"

definition demo_dirs :: "string list" where
  "demo_dirs = [''/proj'', ''/proj/pkg'', ''/proj/broken'']"

definition ENOENT :: "string \<Rightarrow> jserror" where
  "ENOENT what =
     \<lparr>message = ''ENOENT: no such file or directory, '' @ what,
      code = Some ''ENOENT'', exitCode = None, isOperational = False\<rparr>"

text \<open>A file descriptor of the demo host is the position of the file in \<open>demo_files\<close>, plus 3.\<close>

definition demo_open :: "string \<Rightarrow> nat outcome" where
  "demo_open p =
     (if p \<in> set (map fst demo_files)
      then Fulfilled (3 + length (takeWhile (\<lambda>f. fst f \<noteq> p) demo_files))
      else Rejected (ENOENT (''open '' @ p)))"

definition demo_read :: "nat \<Rightarrow> nat \<Rightarrow> nat \<Rightarrow> string outcome" where
  "demo_read fd len pos =
     (if 3 \<le> fd \<and> fd - 3 < length demo_files
      then Fulfilled (take len (drop pos (snd (demo_files ! (fd - 3)))))
      else Rejected (Error ''EBADF: bad file descriptor, read''))"

definition demo_stat :: "string \<Rightarrow> bool outcome" where
  "demo_stat p =
     (if p \<in> set demo_dirs then Fulfilled True
      else if p \<in> set (map fst demo_files) then Fulfilled False
      else Rejected (ENOENT (''stat '' @ p)))"

text \<open>
  The extension of a path with no trailing separator: from the last dot of the last
  segment on, and nothing when that dot opens the segment or the segment is \<open>..\<close>.
\<close>

definition demo_basename :: "string \<Rightarrow> string" where
  "demo_basename p = rev (takeWhile (\<lambda>c. c \<noteq> CHR ''/'') (rev p))"

definition demo_ext :: "string \<Rightarrow> string" where
  "demo_ext b = rev (takeWhile (\<lambda>c. c \<noteq> CHR ''.'') (rev b))"

definition demo_extname :: "string \<Rightarrow> string" where
  "demo_extname p =
     (if CHR ''.'' \<notin> set (demo_basename p)
         \<or> Suc (length (demo_ext (demo_basename p))) = length (demo_basename p)
         \<or> demo_basename p = ''..''
      then []
      else CHR ''.'' # demo_ext (demo_basename p))"

text \<open>The trim of the demo host, on the ASCII white space.\<close>

definition is_space :: "char \<Rightarrow> bool" where
  "is_space c = (c \<in> set [CHR '' '', CHR 0x09, CHR 0x0A, CHR 0x0B, CHR 0x0C, CHR 0x0D])"

definition demo_trim :: "string \<Rightarrow> string" where
  "demo_trim s = rev (dropWhile is_space (rev (dropWhile is_space s)))"

fun demo_join :: "string list \<Rightarrow> string" where
  "demo_join [] = ''.''"
| "demo_join [x] = x"
| "demo_join (x # y # ys) = x @ ''/'' @ demo_join (y # ys)"

definition demo_host :: host where
  "demo_host =
     \<lparr>win32 = False, pid = 4242, cwd = ''/proj'', module_runMain = True,
      elapsed = ''1.5'', help_text = ''Usage: npx <command>'', env_settles_first = False,
      array_has_property = (\<lambda>k. k \<in> set [''length'', ''constructor'', ''find'', ''map'', ''toString'']),
      js_regexp = (\<lambda>src. Inl (Error (''Invalid regular expression: '' @ src))),
      path_TypeError = Error ''Path must be a string'',
      auto_fallback = (\<lambda>sh user_shell av. None),
      get_prefix = (\<lambda>dir. Fulfilled dir),
      path_join = demo_join,
      path_resolve = (\<lambda>dir p. dir @ ''/'' @ p),
      path_extname = demo_extname,
      which = (\<lambda>e c. if c = ''npm'' then Fulfilled ''/usr/bin/npm''
                       else if c = ''ls'' then Fulfilled ''/bin/ls''
                       else Rejected (ENOENT c)),
      child_exec = (\<lambda>e file args. Fulfilled (''/home/u/.npm'' @ [CHR 0x0A])),
      child_escapeArg = (\<lambda>a. a),
      child_spawn = (\<lambda>e file args quiet. Fulfilled ''{}''),
      child_runCommand = (\<lambda>e existing av. Fulfilled ()),
      json_parse = (\<lambda>out. Object \<lparr>added = Some 1, updated = Some 0\<rparr>),
      property_TypeError = Error ''Cannot create property on a primitive value'',
      string_trim = demo_trim,
      dotenv_parse = (\<lambda>out. [''PATH'' \<mapsto> ''/usr/bin'']),
      rimraf = (\<lambda>p. Fulfilled ()),
      fs_readdir = (\<lambda>dir. Fulfilled [''bar'', ''Foo.cmd'']),
      fs_stat = demo_stat,
      fs_open = demo_open,
      fs_read = demo_read,
      fs_close = (\<lambda>fd. Fulfilled ()),
      require_package = (\<lambda>file.
        if file = ''/proj/pkg/package.json'' then Some \<lparr>bin = PFalsy, main = PStr ''lib.txt''\<rparr>
        else None),
      run_main = (\<lambda>args. None)\<rparr>"

text \<open>The request \<open>npx foo\<close>, and the process it starts in.\<close>

definition demo_argv :: argv where
  "demo_argv =
     \<lparr>shell_auto_fallback = None, call = None, command = Some ''foo'', package = [''foo''],
      q = False, packageRequested = False, npxPkg = None, isLocal = False,
      cmdHadVersion = False, ignoreExisting = False, install = Some True, cache = None,
      userconfig = None, npm = ''npm'', shell = None, noYargs = False, cmdOpts = []\<rparr>"

definition demo_proc :: proc where
  "demo_proc =
     \<lparr>env = [''PATH'' \<mapsto> ''/usr/bin:/bin''], process_exitCode = None,
      process_argv = [''/usr/bin/node'', ''/usr/lib/npx/index.js'', ''foo''],
      stderr = [], stdout = [], trace = []\<rparr>"

section \<open>Properties of runs\<close>

text \<open>The events of classification and execution (\<open>findNodeScript\<close> and \<open>execCommand\<close>).\<close>

fun executor_event :: "event \<Rightarrow> bool" where
  "executor_event (Stat p) = True"
| "executor_event (Require p) = True"
| "executor_event (Open p) = True"
| "executor_event (Read fd len pos) = True"
| "executor_event (Close fd) = True"
| "executor_event YargsReset = True"
| "executor_event (RunMain args) = True"
| "executor_event (RunCommand existing) = True"
| "executor_event _ = False"

text \<open>The events of the lookups that come before the decision to install.\<close>

fun lookup_event :: "event \<Rightarrow> bool" where
  "lookup_event (GetPrefix dir) = True"
| "lookup_event (Which c) = True"
| "lookup_event (Exec file args) = True"
| "lookup_event (UpdateNotifier p) = True"
| "lookup_event _ = False"

text \<open>A promise that leaves \<open>process.env\<close> as it found it.\<close>

definition keeps_env :: "'a promise \<Rightarrow> bool" where
  "keeps_env p = (\<forall>s. env (snd (p s)) = env s)"

text \<open>A promise that only adds events of one kind to the trace.\<close>

definition emits :: "(event \<Rightarrow> bool) \<Rightarrow> 'a promise \<Rightarrow> bool" where
  "emits P p = (\<forall>s. \<exists>evs. trace (snd (p s)) = trace s @ evs \<and> list_all P evs)"

section \<open>Auxiliary facts\<close>

subsection \<open>The shebang sniff\<close>

text \<open>
  The line has 20 bytes, none of them zero; so a buffer that the read did not fill
  differs from it.
\<close>

lemma line_length: "length line = 20"
  by (simp add: line_def)

lemma bytecount_20: "bytecount = 20"
  by (simp add: bytecount_def line_length)

lemma zero_notin_line: "CHR 0x00 \<notin> set line"
  by (simp add: line_def)

lemma buf_store_line:
  "buf_store (Buffer_alloc 20) 0 20 bytes = line \<longleftrightarrow> take 20 bytes = line"
proof (cases "20 \<le> length bytes")
  case True
  then show ?thesis by (simp add: buf_store_def Buffer_alloc_def min_def)
next
  case False
  then have short: "length bytes < 20" by simp
  then have buf: "buf_store (Buffer_alloc 20) 0 20 bytes = bytes @ replicate (20 - length bytes) (CHR 0x00)"
    by (simp add: buf_store_def Buffer_alloc_def min_def)
  have "CHR 0x00 \<in> set (bytes @ replicate (20 - length bytes) (CHR 0x00))"
    using short by simp
  then have "bytes @ replicate (20 - length bytes) (CHR 0x00) \<noteq> line"
    using zero_notin_line by metis
  moreover have "take 20 bytes \<noteq> line"
    using short line_length by (metis length_take min.strict_order_iff nat_neq_iff min_def)
  ultimately show ?thesis using buf by simp
qed

lemma sniff_run:
  assumes "fs_open w existing = Fulfilled fd"
    and "fs_read w fd 20 0 = Fulfilled bytes"
    and "fs_close w fd = Fulfilled ()"
  shows "sniff w existing s =
           (Fulfilled (if take 20 bytes = line then JStr existing else JFalse),
            s\<lparr>trace := trace s @ [Open existing, Read fd 20 0, Close fd]\<rparr>)"
  using assms
  by (simp add: sniff_def bytecount_20 then_p_def then_else_def ask_def emit_def
      fs_read_p_def resolved_def buf_store_line)

lemma findNodeScript_sniff_branch:
  assumes "existing \<noteq> []"
    and "fs_stat w existing = Fulfilled isDirectory"
    and "\<not> (opts_isLocal opts \<and> (path_extname w existing = ''.js'' \<or> isDirectory))"
  shows "findNodeScript (Suc n) w (JStr existing) opts s =
           (if \<not> win32 w then sniff w existing (emit (Stat existing) s)
            else (Fulfilled JUndefined, emit (Stat existing) s))"
  using assms by (auto simp add: findNodeScript.simps then_p_def ask_def resolved_def)

subsection \<open>The events of the two execution strategies\<close>

lemma runCommand_trace:
  "trace (snd (runCommand w existing av s)) = trace s @ [RunCommand existing]"
  by (cases "child_runCommand w (env s) existing av")
     (simp_all add: runCommand_def catch_p_def then_else_def ask_def emit_def resolved_def rejected_def)

lemma runMain_trace:
  "trace (snd (runMain w av existing s)) =
     trace s @ (if noYargs av then [] else [YargsReset])
       @ [RunMain (take 1 (process_argv s) @ [js_String existing] @ cmdOpts av)]"
  by (cases "run_main w (take 1 (process_argv s) @ [js_String existing] @ cmdOpts av)")
     (simp_all add: runMain_def emit_def Let_def)

subsection \<open>What leaves the environment alone\<close>

text \<open>
  Only three places assign to \<open>process.env\<close>: the prefix for the local binaries, the
  captured lifecycle environment, and the prefix for the installed binaries.  Every
  other step keeps it.
\<close>

lemma keeps_env_resolved [simp]: "keeps_env (resolved x)"
  by (simp add: keeps_env_def resolved_def)

lemma keeps_env_rejected [simp]: "keeps_env (rejected e)"
  by (simp add: keeps_env_def rejected_def)

lemma keeps_env_ask [simp]: "keeps_env (ask e r)"
  by (simp add: keeps_env_def ask_def emit_def)

lemma keeps_env_then_else:
  assumes "keeps_env p" and "\<And>x. keeps_env (f x)" and "\<And>e. keeps_env (g e)"
  shows "keeps_env (then_else p f g)"
  unfolding keeps_env_def
proof
  fix s
  obtain r s' where ps: "p s = (r, s')" by (cases "p s")
  with assms(1) have e: "env s' = env s" by (metis keeps_env_def snd_conv)
  show "env (snd (then_else p f g s)) = env s"
    using ps e assms(2,3) by (cases r) (simp_all add: then_else_def keeps_env_def)
qed

lemma keeps_env_then_p:
  assumes "keeps_env p" and "\<And>x. keeps_env (f x)"
  shows "keeps_env (then_p p f)"
proof -
  have "then_p p f = then_else p f rejected"
    by (rule ext) (simp add: then_p_def then_else_def rejected_def split: prod.splits outcome.splits)
  then show ?thesis using assms by (simp add: keeps_env_then_else)
qed

lemma keeps_env_catch_p:
  assumes "keeps_env p" and "\<And>e. keeps_env (g e)"
  shows "keeps_env (catch_p p g)"
  using assms by (simp add: catch_p_def keeps_env_then_else)

lemma keeps_env_all2:
  assumes "keeps_env a" and "keeps_env b"
  shows "keeps_env (all2 f a b)"
  unfolding keeps_env_def
proof
  fix s
  obtain ra s1 where a: "a s = (ra, s1)" by (cases "a s")
  obtain rb s2 where b: "b s1 = (rb, s2)" by (cases "b s1")
  have "env s1 = env s" using a assms(1) by (metis keeps_env_def snd_conv)
  moreover have "env s2 = env s1" using b assms(2) by (metis keeps_env_def snd_conv)
  ultimately show "env (snd (all2 f a b s)) = env s"
    using a b by (simp add: all2_def)
qed

lemma keeps_env_which_p [simp]: "keeps_env (which_p w c)"
  by (simp add: keeps_env_def which_p_def ask_def emit_def)

lemma keeps_env_exec_p [simp]: "keeps_env (exec_p w f a)"
  by (simp add: keeps_env_def exec_p_def ask_def emit_def)

lemma keeps_env_getExistingPath [simp]: "keeps_env (getExistingPath w c av)"
  by (simp add: getExistingPath_def keeps_env_then_else)

lemma keeps_env_existing_path [simp]: "keeps_env (existing_path w av)"
  by (simp add: existing_path_def split: option.splits)

lemma keeps_env_getEnv [simp]: "keeps_env (getEnv w av)"
  by (simp add: getEnv_def keeps_env_then_p)

lemma keeps_env_new_env [simp]: "keeps_env (new_env w av)"
  by (simp add: new_env_def keeps_env_then_p)

lemma keeps_env_getNpmCache [simp]: "keeps_env (getNpmCache w av)"
  by (simp add: getNpmCache_def keeps_env_then_p)

lemma keeps_env_installPackages [simp]: "keeps_env (installPackages w specs prefix av)"
  unfolding installPackages_def Let_def
  by (intro keeps_env_then_p keeps_env_then_else keeps_env_which_p)
     (simp_all add: keeps_env_def ask_def emit_def resolved_def rejected_def)

lemma keeps_env_commandLocator [simp]: "keeps_env (commandLocator w c d)"
  unfolding commandLocator_def
  by (intro keeps_env_then_else) (simp_all add: Let_def split: sum.splits jsprop.splits)

lemma keeps_env_fs_read_p [simp]: "keeps_env (fs_read_p w fd buf off len pos)"
  by (simp add: keeps_env_def fs_read_p_def emit_def split: outcome.splits)

lemma keeps_env_sniff [simp]: "keeps_env (sniff w p)"
  unfolding sniff_def Let_def
  by (intro keeps_env_then_p keeps_env_then_else) simp_all

lemma keeps_env_package_entry:
  assumes "\<And>t. keeps_env (recurse t)"
  shows "keeps_env (package_entry w p recurse)"
  unfolding keeps_env_def
proof
  fix s
  have k: "\<And>t. keeps_env (then_p (recurse (JStr t)) (\<lambda>script.
             if truthy script then resolved script
             else rejected (Error (Y (''command not found: '' @ t)))))"
    by (intro keeps_env_then_p assms) simp
  show "env (snd (package_entry w p recurse s)) = env s"
    using k
    by (simp add: package_entry_def Let_def keeps_env_def emit_def
        split: option.splits jsprop.splits)
qed

lemma keeps_env_findNodeScript [simp]: "keeps_env (findNodeScript n w existing opts)"
proof (induction n arbitrary: existing)
  case 0
  show ?case by (cases existing) (simp_all add: findNodeScript.simps, simp add: keeps_env_def)
next
  case (Suc n)
  show ?case
  proof (cases existing)
    case (JStr p)
    show ?thesis
      unfolding JStr findNodeScript.simps
      using keeps_env_package_entry [of "\<lambda>target. findNodeScript n w target opts", OF Suc.IH]
      by (auto intro!: keeps_env_then_p)
  qed (simp_all add: findNodeScript.simps)
qed

lemma keeps_env_runMain [simp]: "keeps_env (runMain w av existing)"
  by (simp add: keeps_env_def runMain_def Let_def emit_def split: option.splits)

lemma keeps_env_runCommand [simp]: "keeps_env (runCommand w existing av)"
  unfolding runCommand_def
  by (intro keeps_env_catch_p) (simp_all add: keeps_env_def ask_def emit_def rejected_def)

lemma keeps_env_execCommand [simp]: "keeps_env (execCommand n w existing av)"
  unfolding execCommand_def
  by (intro keeps_env_then_p keeps_env_findNodeScript)
     (insert keeps_env_runMain keeps_env_runCommand, simp add: keeps_env_def)

lemma keeps_env_report_failure [simp]: "keeps_env (report_failure av e)"
  by (simp add: keeps_env_def report_failure_def)

lemma keeps_envD: "keeps_env p \<Longrightarrow> p s = (r, s') \<Longrightarrow> env s' = env s"
  by (metis keeps_env_def snd_conv)

subsection \<open>The installer\<close>

lemma ensurePackages_env:
  assumes "ensurePackages w specs opts s = (Fulfilled results, s')"
  shows "env s' = (env s)(''PATH'' \<mapsto> info_bin results @ PATH_SEP w @ tmpl (env s ''PATH''))"
proof -
  let ?cacheP = "(if truthy_s (cache opts) then resolved (tmpl (cache opts)) else getNpmCache w opts)"
  have kc: "keeps_env ?cacheP" by simp
  obtain rc s1 where c: "?cacheP (emit (EnsurePackages specs) s) = (rc, s1)"
    by (cases "?cacheP (emit (EnsurePackages specs) s)")
  have e1: "env s1 = env s" using keeps_envD [OF kc c] by (simp add: emit_def)
  from assms c obtain c0 where rc: "rc = Fulfilled c0"
    by (cases rc) (auto simp add: ensurePackages_def then_p_def)
  let ?prefix = "path_join w [c0, ''_npx'', show_nat (pid w)]"
  let ?bins = "(if win32 w then ?prefix else path_join w [?prefix, ''bin''])"
  let ?inst = "then_p (\<lambda>s. ask (Rimraf ?bins) (rimraf w ?bins) (emit (OnExit ?prefix) s))
                     (\<lambda>_. installPackages w specs ?prefix opts)"
  have ki: "keeps_env ?inst"
    by (intro keeps_env_then_p keeps_env_installPackages) (simp add: keeps_env_def ask_def emit_def)
  obtain ri s2 where i: "?inst s1 = (ri, s2)" by (cases "?inst s1")
  have e2: "env s2 = env s1" using keeps_envD [OF ki i] .
  from assms c rc i obtain info where ri: "ri = Fulfilled info"
    by (cases ri) (auto simp add: ensurePackages_def then_p_def Let_def)
  from assms c rc i ri have "s' = prepend_PATH w ?bins s2" and "info_bin results = ?bins"
    by (auto simp add: ensurePackages_def then_p_def Let_def install_done_def split: parsed.splits)
  then show ?thesis using e1 e2 by (simp add: prepend_PATH_def)
qed

lemma npx_main_reached:
  assumes "shell_auto_fallback av = None"
    and "truthy_s (call av) \<or> truthy_s (command av)"
    and "localBinPath w (cwd w) s = (Fulfilled local, s0)"
  shows "npx n w av s = npx_main n w av local s0"
  using assms by (auto simp add: npx_def truthy_array_def then_p_def)

lemma installPackages_fails:
  assumes "which w (env s) (npm av) = Fulfilled npmPath"
    and "child_spawn w (env s) npmPath (buildArgs specs prefix av) (q av) = Rejected err"
  shows "installPackages w specs prefix av s =
           (Rejected (install_failure specs err),
            s\<lparr>trace := trace s @ [Which (npm av), Spawn npmPath (buildArgs specs prefix av)]\<rparr>)"
  using assms
  by (simp add: installPackages_def Let_def then_p_def then_else_def which_p_def ask_def
      emit_def rejected_def)

lemma ensurePackages_fails:
  fixes w :: host and c :: string
  defines "prefix \<equiv> path_join w [c, ''_npx'', show_nat (pid w)]"
  defines "bins \<equiv> (if win32 w then prefix else path_join w [prefix, ''bin''])"
  assumes "(if truthy_s (cache av) then resolved (tmpl (cache av)) else getNpmCache w av)
             (emit (EnsurePackages specs) s) = (Fulfilled c, s2)"
    and "rimraf w bins = Fulfilled ()"
    and "which w (env s2) (npm av) = Fulfilled npmPath"
    and "child_spawn w (env s2) npmPath (buildArgs specs prefix av) (q av) = Rejected err"
  shows "ensurePackages w specs av s =
           (Rejected (install_failure specs err),
            s2\<lparr>trace := trace s2 @ [OnExit prefix, Rimraf bins, Which (npm av),
                                     Spawn npmPath (buildArgs specs prefix av)]\<rparr>)"
proof -
  let ?s3 = "emit (Rimraf bins) (emit (OnExit prefix) s2)"
  have "installPackages w specs prefix av ?s3 =
           (Rejected (install_failure specs err),
            ?s3\<lparr>trace := trace ?s3 @ [Which (npm av), Spawn npmPath (buildArgs specs prefix av)]\<rparr>)"
    using assms(5,6) by (intro installPackages_fails) (simp_all add: emit_def)
  then show ?thesis
    using assms(3,4)
    by (cases "win32 w")
       (simp_all add: ensurePackages_def then_p_def Let_def ask_def emit_def prefix_def bins_def)
qed

subsection \<open>What each step adds to the trace\<close>

lemma emitsD:
  assumes "emits P p"
  obtains evs where "trace (snd (p s)) = trace s @ evs" and "list_all P evs"
  using assms unfolding emits_def by blast

lemma emits_resolved [simp]: "emits P (resolved x)"
  by (simp add: emits_def resolved_def)

lemma emits_rejected [simp]: "emits P (rejected e)"
  by (simp add: emits_def rejected_def)

lemma emits_pending [simp]: "emits P (\<lambda>s. (Pending, s))"
  by (simp add: emits_def)

lemma emits_ask: "P e \<Longrightarrow> emits P (ask e r)"
  by (simp add: emits_def ask_def emit_def)

lemma then_else_trace:
  assumes "\<And>x. emits P (f x)" and "\<And>e. emits P (g e)"
  shows "\<exists>evs. trace (snd (then_else p f g s)) = trace (snd (p s)) @ evs \<and> list_all P evs"
proof -
  obtain r s' where ps: "p s = (r, s')" by (cases "p s")
  show ?thesis
  proof (cases r)
    case (Fulfilled x)
    obtain evs where "trace (snd (f x s')) = trace s' @ evs" and "list_all P evs"
      using assms(1) by (rule emitsD)
    then show ?thesis using ps Fulfilled by (simp add: then_else_def)
  next
    case (Rejected e)
    obtain evs where "trace (snd (g e s')) = trace s' @ evs" and "list_all P evs"
      using assms(2) by (rule emitsD)
    then show ?thesis using ps Rejected by (simp add: then_else_def)
  next
    case Pending
    then show ?thesis using ps by (simp add: then_else_def)
  qed
qed

lemma then_p_then_else: "then_p p f = then_else p f rejected"
  by (rule ext) (simp add: then_p_def then_else_def rejected_def split: prod.splits outcome.splits)

lemma then_p_trace:
  assumes "\<And>x. emits P (f x)"
  shows "\<exists>evs. trace (snd (then_p p f s)) = trace (snd (p s)) @ evs \<and> list_all P evs"
  unfolding then_p_then_else using assms by (intro then_else_trace) simp_all

lemma emits_then_else:
  assumes "emits P p" and "\<And>x. emits P (f x)" and "\<And>e. emits P (g e)"
  shows "emits P (then_else p f g)"
  unfolding emits_def
proof
  fix s
  obtain evs1 where 1: "trace (snd (p s)) = trace s @ evs1" "list_all P evs1"
    using assms(1) by (rule emitsD)
  have "\<exists>evs. trace (snd (then_else p f g s)) = trace (snd (p s)) @ evs \<and> list_all P evs"
    by (rule then_else_trace) (rule assms(2), rule assms(3))
  then obtain evs2 where 2: "trace (snd (then_else p f g s)) = trace (snd (p s)) @ evs2" "list_all P evs2"
    by blast
  from 1 2 have "trace (snd (then_else p f g s)) = trace s @ (evs1 @ evs2) \<and> list_all P (evs1 @ evs2)"
    by simp
  then show "\<exists>evs. trace (snd (then_else p f g s)) = trace s @ evs \<and> list_all P evs"
    by blast
qed

lemma emits_then_p:
  assumes "emits P p" and "\<And>x. emits P (f x)"
  shows "emits P (then_p p f)"
  unfolding then_p_then_else using assms by (intro emits_then_else) simp_all

lemma emits_all2:
  assumes "emits P a" and "emits P b"
  shows "emits P (all2 f a b)"
  unfolding emits_def
proof
  fix s
  obtain ra s1 where a: "a s = (ra, s1)" by (cases "a s")
  obtain rb s2 where b: "b s1 = (rb, s2)" by (cases "b s1")
  obtain evs1 where 1: "trace (snd (a s)) = trace s @ evs1" "list_all P evs1"
    using assms(1) by (rule emitsD)
  obtain evs2 where 2: "trace (snd (b s1)) = trace s1 @ evs2" "list_all P evs2"
    using assms(2) by (rule emitsD)
  from a b 1 2 have "trace (snd (all2 f a b s)) = trace s @ (evs1 @ evs2) \<and> list_all P (evs1 @ evs2)"
    by (simp add: all2_def)
  then show "\<exists>evs. trace (snd (all2 f a b s)) = trace s @ evs \<and> list_all P evs"
    by blast
qed

lemma emits_which_p: "P (Which c) \<Longrightarrow> emits P (which_p w c)"
  by (simp add: emits_def which_p_def ask_def emit_def)

lemma emits_exec_p: "P (Exec f a) \<Longrightarrow> emits P (exec_p w f a)"
  by (simp add: emits_def exec_p_def ask_def emit_def)

lemma emits_existing_path: "emits lookup_event (existing_path w av)"
  by (auto simp add: existing_path_def getExistingPath_def split: option.splits
      intro!: emits_then_else emits_which_p)

lemma emits_new_env: "emits lookup_event (new_env w av)"
  by (auto simp add: new_env_def getEnv_def intro!: emits_then_p emits_exec_p)

lemma emits_fs_read_p: "emits executor_event (fs_read_p w fd buf off len pos)"
  by (simp add: emits_def fs_read_p_def emit_def split: outcome.splits)

lemma emits_sniff: "emits executor_event (sniff w p)"
  unfolding sniff_def Let_def
  by (intro emits_then_p emits_then_else emits_ask emits_fs_read_p) simp_all

lemma emits_package_entry:
  assumes "\<And>t. emits executor_event (recurse t)"
  shows "emits executor_event (package_entry w p recurse)"
  unfolding emits_def
proof
  fix s
  let ?s1 = "emit (Require (path_resolve w p ''package.json'')) s"
  have k: "\<And>t. emits executor_event (then_p (recurse (JStr t)) (\<lambda>script.
             if truthy script then resolved script
             else rejected (Error (Y (''command not found: '' @ t)))))"
    by (intro emits_then_p assms) simp
  have "\<exists>evs. trace (snd (package_entry w p recurse s)) = trace ?s1 @ evs \<and> list_all executor_event evs"
  proof (cases "require_package w (path_resolve w p ''package.json'')")
    case None
    then show ?thesis by (simp add: package_entry_def Let_def)
  next
    case (Some pkg)
    show ?thesis
    proof (cases "or_else (or_else (bin pkg) (main pkg)) (PStr ''index.js'')")
      case (PStr entry)
      obtain evs where "trace (snd (then_p (recurse (JStr (path_resolve w p entry))) (\<lambda>script.
             if truthy script then resolved script
             else rejected (Error (Y (''command not found: '' @ path_resolve w p entry)))) ?s1))
           = trace ?s1 @ evs" and "list_all executor_event evs"
        using k by (rule emitsD)
      then show ?thesis using Some PStr by (simp add: package_entry_def Let_def)
    qed (simp_all add: Some package_entry_def Let_def)
  qed
  then obtain evs where "trace (snd (package_entry w p recurse s)) = trace ?s1 @ evs"
    and "list_all executor_event evs" by blast
  then have "trace (snd (package_entry w p recurse s)) =
      trace s @ (Require (path_resolve w p ''package.json'') # evs)
      \<and> list_all executor_event (Require (path_resolve w p ''package.json'') # evs)"
    by (simp add: emit_def)
  then show "\<exists>evs. trace (snd (package_entry w p recurse s)) = trace s @ evs \<and> list_all executor_event evs"
    by blast
qed

lemma emits_findNodeScript: "emits executor_event (findNodeScript n w existing opts)"
proof (induction n arbitrary: existing)
  case 0
  show ?case by (cases existing) (simp_all add: findNodeScript.simps)
next
  case (Suc n)
  show ?case
  proof (cases existing)
    case (JStr p)
    have "emits executor_event (package_entry w p (\<lambda>target. findNodeScript n w target opts))"
      by (rule emits_package_entry) (rule Suc.IH)
    then show ?thesis
      unfolding JStr findNodeScript.simps
      by (auto intro!: emits_then_p emits_ask emits_sniff)
  qed (simp_all add: findNodeScript.simps)
qed

lemma emits_runCommand: "emits executor_event (runCommand w existing av)"
  unfolding emits_def using runCommand_trace by simp

lemma emits_runMain: "emits executor_event (runMain w av existing)"
  unfolding emits_def using runMain_trace by simp

lemma emits_execCommand: "emits executor_event (execCommand n w existing av)"
  unfolding execCommand_def
proof (intro emits_then_p emits_findNodeScript)
  fix x
  show "emits executor_event (\<lambda>s. if takes_over w av s x then runMain w av x s else runCommand w x av s)"
    using emits_runMain [of w av x] emits_runCommand [of w x av]
    by (simp add: emits_def)
qed

lemma emits_report_failure: "emits P (report_failure av e)"
  by (simp add: emits_def report_failure_def)

subsection \<open>The trace of a whole run\<close>

lemma tail_trace:
  assumes "\<And>x. emits P (f x)" and "\<And>e. emits P (g e)"
  shows "\<exists>evs. trace (snd (catch_p (then_p p f) g s)) = trace (snd (p s)) @ evs \<and> list_all P evs"
proof -
  have "\<exists>evs. trace (snd (then_else (then_p p f) resolved g s)) = trace (snd (then_p p f s)) @ evs
          \<and> list_all P evs"
    by (rule then_else_trace) (simp, rule assms(2))
  then obtain evs1 where 1: "trace (snd (catch_p (then_p p f) g s)) = trace (snd (then_p p f s)) @ evs1"
    "list_all P evs1" unfolding catch_p_def by blast
  have "\<exists>evs. trace (snd (then_p p f s)) = trace (snd (p s)) @ evs \<and> list_all P evs"
    by (rule then_p_trace) (rule assms(1))
  then obtain evs2 where 2: "trace (snd (then_p p f s)) = trace (snd (p s)) @ evs2" "list_all P evs2"
    by blast
  from 1 2 have "trace (snd (catch_p (then_p p f) g s)) = trace (snd (p s)) @ (evs2 @ evs1)
      \<and> list_all P (evs2 @ evs1)" by simp
  then show ?thesis by blast
qed

lemma localBinPath_trace:
  assumes "localBinPath w dir s = (r, s0)"
  shows "trace s0 = trace s @ [GetPrefix dir]"
  using assms
  by (cases "get_prefix w dir")
     (auto simp add: localBinPath_def then_p_def ask_def emit_def resolved_def)

lemma emits_getNpmCache: "emits (\<lambda>e. True) (getNpmCache w av)"
  unfolding getNpmCache_def
  by (intro emits_then_p emits_which_p emits_exec_p) simp_all

lemma emits_installPackages: "emits (\<lambda>e. True) (installPackages w specs prefix av)"
  unfolding installPackages_def Let_def
  by (intro emits_then_p emits_then_else emits_which_p)
     (simp_all add: emits_def ask_def emit_def resolved_def rejected_def)

lemma emits_commandLocator: "emits (\<lambda>e. True) (commandLocator w c d)"
  unfolding commandLocator_def
  by (intro emits_then_else emits_ask) (simp_all add: Let_def split: sum.splits jsprop.splits)

lemma ensurePackages_trace:
  "\<exists>evs. trace (snd (ensurePackages w specs av s)) = trace s @ EnsurePackages specs # evs"
proof -
  let ?cacheP = "(if truthy_s (cache av) then resolved (tmpl (cache av)) else getNpmCache w av)"
  let ?K = "(\<lambda>c. let prefix = path_join w [c, ''_npx'', show_nat (pid w)];
                 bins = (if win32 w then prefix else path_join w [prefix, ''bin''])
             in then_p
                  (then_p (\<lambda>s. ask (Rimraf bins) (rimraf w bins) (emit (OnExit prefix) s))
                     (\<lambda>_. installPackages w specs prefix av))
                  (install_done w prefix bins))"
  have c: "emits (\<lambda>e. True) ?cacheP" by (simp add: emits_getNpmCache)
  have k: "\<And>c. emits (\<lambda>e. True) (?K c)"
    unfolding Let_def
    by (intro emits_then_p emits_installPackages)
       (simp_all add: emits_def ask_def emit_def install_done_def prepend_PATH_def
          split: parsed.splits)
  have "emits (\<lambda>e. True) (then_p ?cacheP ?K)"
    by (rule emits_then_p) (rule c, rule k)
  then obtain evs where "trace (snd (then_p ?cacheP ?K (emit (EnsurePackages specs) s)))
      = trace (emit (EnsurePackages specs) s) @ evs"
    by (rule emitsD)
  moreover have "ensurePackages w specs av s = then_p ?cacheP ?K (emit (EnsurePackages specs) s)"
    by (simp add: ensurePackages_def then_p_def)
  ultimately show ?thesis by (simp add: emit_def)
qed

lemma resolve_existing_installs_trace:
  assumes "installs av existing"
  shows "\<exists>evs. trace (snd (resolve_existing w av (existing, newEnv) s1)) =
           trace s1 @ (if truthy_s (npxPkg av) then [UpdateNotifier (tmpl (npxPkg av))] else [])
             @ EnsurePackages (package av) # evs"
proof -
  let ?sB = "(case newEnv of Some e \<Rightarrow> s1\<lparr>env := e\<rparr> | None \<Rightarrow> s1)"
  let ?sC = "(if truthy_s (npxPkg av) then emit (UpdateNotifier (tmpl (npxPkg av))) ?sB else ?sB)"
  let ?H = "(\<lambda>results s3.
            let s4 = (case (added results, updated results) of
                        (Some a, Some u) \<Rightarrow>
                          if \<not> q av then s3\<lparr>stderr := stderr s3 @ [installed_message w (a + u)]\<rparr>
                          else s3
                      | _ \<Rightarrow> s3)
            in if truthy_s (command av) \<and> \<not> truthy existing \<and> \<not> packageRequested av
                  \<and> length (package av) = 1
               then commandLocator w (tmpl (command av)) (info_bin results) s4
               else (Fulfilled existing, s4))"
  have h: "\<And>results :: install_info. emits (\<lambda>e. True) (?H results)"
    unfolding emits_def
  proof
    fix results :: install_info and s3 :: proc
    let ?s4 = "(case (added results, updated results) of
                        (Some a, Some u) \<Rightarrow>
                          if \<not> q av then s3\<lparr>stderr := stderr s3 @ [installed_message w (a + u)]\<rparr>
                          else s3
                      | _ \<Rightarrow> s3)"
    have t4: "trace ?s4 = trace s3" by (simp split: option.splits)
    obtain evs where "trace (snd (commandLocator w (tmpl (command av)) (info_bin results) ?s4))
        = trace ?s4 @ evs"
      using emits_commandLocator by (rule emitsD)
    then show "\<exists>evs. trace (snd (?H results s3)) = trace s3 @ evs \<and> list_all (\<lambda>e. True) evs"
      using t4 by (simp add: Let_def list_all_iff)
  qed
  have "\<exists>evs. trace (snd (then_p (ensurePackages w (package av) av) ?H ?sC))
          = trace (snd (ensurePackages w (package av) av ?sC)) @ evs \<and> list_all (\<lambda>e. True) evs"
    by (rule then_p_trace) (rule h)
  then obtain evs1 where 1: "trace (snd (then_p (ensurePackages w (package av) av) ?H ?sC))
          = trace (snd (ensurePackages w (package av) av ?sC)) @ evs1" by blast
  obtain evs2 where 2: "trace (snd (ensurePackages w (package av) av ?sC))
      = trace ?sC @ EnsurePackages (package av) # evs2"
    using ensurePackages_trace by blast
  have 3: "trace ?sC = trace s1 @ (if truthy_s (npxPkg av) then [UpdateNotifier (tmpl (npxPkg av))] else [])"
    by (simp add: emit_def split: option.splits)
  have "resolve_existing w av (existing, newEnv) s1 = then_p (ensurePackages w (package av) av) ?H ?sC"
    using assms by (simp add: resolve_existing_def Let_def)
  then show ?thesis using 1 2 3 by simp
qed

lemma npx_early_trace:
  assumes "shell_auto_fallback av \<noteq> None \<or> (\<not> truthy_s (call av) \<and> \<not> truthy_s (command av))"
    and "trace s = []"
  shows "trace (snd (npx n w av s)) = []"
  using assms by (auto simp add: npx_def split: option.splits)

lemma npx_prefix_fails_trace:
  assumes "shell_auto_fallback av = None"
    and "truthy_s (call av) \<or> truthy_s (command av)"
    and "\<forall>dir. fst (localBinPath w (cwd w) s) \<noteq> Fulfilled dir"
  shows "trace (snd (npx n w av s)) = trace s @ [GetPrefix (cwd w)]"
proof -
  obtain r0 s0 where l: "localBinPath w (cwd w) s = (r0, s0)"
    by (cases "localBinPath w (cwd w) s")
  have t0: "trace s0 = trace s @ [GetPrefix (cwd w)]" using l by (rule localBinPath_trace)
  have "npx n w av s = then_p (localBinPath w (cwd w)) (npx_main n w av) s"
    using assms(1,2) by (auto simp add: npx_def truthy_array_def)
  moreover have "snd (then_p (localBinPath w (cwd w)) (npx_main n w av) s) = s0"
    using l assms(3) by (cases r0) (simp_all add: then_p_def)
  ultimately show ?thesis using t0 by simp
qed

lemma lookups_trace:
  assumes "trace s = []"
    and "localBinPath w (cwd w) s = (Fulfilled local, s0)
         \<and> all2 (env_settles_first w) (existing_path w av) (new_env w av)
              (if local \<noteq> [] then prepend_PATH w local s0 else s0) = (r, s1)"
  shows "\<exists>evs1. trace s1 = GetPrefix (cwd w) # evs1 \<and> list_all lookup_event evs1"
proof -
  let ?sA = "(if local \<noteq> [] then prepend_PATH w local s0 else s0)"
  let ?all = "all2 (env_settles_first w) (existing_path w av) (new_env w av)"
  have l: "localBinPath w (cwd w) s = (Fulfilled local, s0)" using assms(2) by simp
  have t0: "trace ?sA = [GetPrefix (cwd w)]"
    using localBinPath_trace [OF l] assms(1) by (simp add: prepend_PATH_def)
  have "emits lookup_event ?all"
    by (rule emits_all2) (rule emits_existing_path, rule emits_new_env)
  then obtain evs1 where "trace (snd (?all ?sA)) = trace ?sA @ evs1" and "list_all lookup_event evs1"
    by (rule emitsD)
  then show ?thesis using assms(2) t0 by simp
qed

lemma npx_lookup_fails_trace:
  assumes "shell_auto_fallback av = None"
    and "truthy_s (call av) \<or> truthy_s (command av)"
    and "localBinPath w (cwd w) s = (Fulfilled local, s0)"
    and "all2 (env_settles_first w) (existing_path w av) (new_env w av)
           (if local \<noteq> [] then prepend_PATH w local s0 else s0) = (r, s1)"
    and "\<forall>x. r \<noteq> Fulfilled x"
  shows "trace (snd (npx n w av s)) = trace s1"
proof -
  have "npx n w av s = npx_main n w av local s0"
    using assms(1-3) by (rule npx_main_reached)
  then show ?thesis
    using assms(4,5)
    by (cases r)
       (simp_all add: npx_main_def catch_p_def then_else_def then_p_def report_failure_def)
qed

lemma npx_decided_trace:
  assumes "shell_auto_fallback av = None \<and> (truthy_s (call av) \<or> truthy_s (command av))"
    and "localBinPath w (cwd w) s = (Fulfilled local, s0)
         \<and> all2 (env_settles_first w) (existing_path w av) (new_env w av)
              (if local \<noteq> [] then prepend_PATH w local s0 else s0)
            = (Fulfilled (existing, newEnv), s1)"
  shows "\<exists>evs3. trace (snd (npx n w av s))
             = trace (snd (resolve_existing w av (existing, newEnv) s1)) @ evs3
           \<and> list_all executor_event evs3"
proof -
  let ?sA = "(if local \<noteq> [] then prepend_PATH w local s0 else s0)"
  let ?all = "all2 (env_settles_first w) (existing_path w av) (new_env w av)"
  have npx: "npx n w av s = npx_main n w av local s0"
    using assms by (intro npx_main_reached) simp_all
  have pR: "then_p ?all (resolve_existing w av) ?sA = resolve_existing w av (existing, newEnv) s1"
    using assms(2) by (simp add: then_p_def)
  have "\<exists>evs. trace (snd (catch_p (then_p (then_p ?all (resolve_existing w av))
                  (\<lambda>existing. execCommand n w existing av)) (report_failure av) ?sA))
          = trace (snd (then_p ?all (resolve_existing w av) ?sA)) @ evs \<and> list_all executor_event evs"
    by (rule tail_trace) (rule emits_execCommand, rule emits_report_failure)
  then show ?thesis unfolding npx npx_main_def pR by blast
qed

lemma captured_iff_call:
  assumes "all2 f (existing_path w av) (new_env w av) s = (Fulfilled (existing, newEnv), s1)"
  shows "newEnv = None \<longleftrightarrow> \<not> truthy_s (call av)"
proof -
  obtain ra sa where a: "existing_path w av s = (ra, sa)" by (cases "existing_path w av s")
  obtain rb sb where b: "new_env w av sa = (rb, sb)" by (cases "new_env w av sa")
  have rb: "rb = Fulfilled newEnv"
    using assms a b by (cases ra; cases rb) (simp_all add: all2_def)
  show ?thesis
  proof (cases "truthy_s (call av)")
    case True
    then have "new_env w av sa = then_p (getEnv w av) (\<lambda>e. resolved (Some e)) sa"
      by (simp add: new_env_def)
    then have "newEnv \<noteq> None"
      using b rb
      by (cases "getEnv w av sa")
         (auto simp add: then_p_def resolved_def split: outcome.splits)
    then show ?thesis using True by simp
  next
    case False
    then show ?thesis using b rb by (simp add: new_env_def resolved_def)
  qed
qed

subsection \<open>Unfolding the definitions on a concrete run\<close>

lemmas demo_simps =
  demo_host_def demo_argv_def demo_proc_def demo_files_def demo_dirs_def demo_stat_def
  demo_open_def demo_read_def demo_extname_def demo_basename_def demo_ext_def
  demo_trim_def is_space_def ENOENT_def opts_isLocal_def line_def

lemmas run_simps =
  findNodeScript.simps package_entry_def sniff_def bytecount_def Buffer_alloc_def buf_store_def
  fs_read_p_def then_p_def then_else_def catch_p_def ask_def emit_def resolved_def rejected_def
  or_else_def Error_def Y_def Let_def

lemmas step_simps =
  localBinPath_def all2_def existing_path_def new_env_def getEnv_def
  getExistingPath_def which_p_def resolve_existing_def installs_def installed_message_def
  ensurePackages_def getNpmCache_def exec_p_def installPackages_def install_failure_def
  install_failed_message_def buildArgs_def install_done_def show_nat.simps show_int_def
  commandLocator_def cmd_regexp_def literal_name_def ascii_char_def regexp_syntax_char_def
  lower_def lower_char_def array_get_def array_index_def canonical_index_def is_digit_def
  execCommand_def takes_over_def runMain_def runCommand_def report_failure_def
  prepend_PATH_def PATH_SEP_def truthy_array_def

lemmas npx_simps = npx_def npx_main_def step_simps

lemma pair_fst_snd: "fst p = a \<Longrightarrow> p = (a, snd p)"
  by (cases p) simp

section \<open>Claims\<close>

text \<open>
  C1 (the command locator returns the entry that matches the command name, and the first
  entry only when none matches).  The code does not do this: \<open>bins.find\<close> gives the
  matching entry, not its position, so \<open>bins[matching]\<close> reads a property named after
  the entry and is \<open>undefined\<close>; what is returned is \<open>bins[0]\<close>.  With the listing
  \<open>bar\<close>, \<open>Foo.cmd\<close> and the command \<open>foo\<close>, the entry \<open>Foo.cmd\<close> matches and the
  locator returns the path of \<open>bar\<close>, which \<open>npx foo\<close> then goes on to classify.
\<close>

theorem commandLocator_ignores_match:
  "fs_readdir demo_host ''/c/_npx/1/bin'' = Fulfilled [''bar'', ''Foo.cmd'']
   \<and> find (\<lambda>b. lower b = lower ''foo'' \<or> lower b = lower ''foo'' @ ''.cmd'') [''bar'', ''Foo.cmd'']
       = Some ''Foo.cmd''
   \<and> fst (commandLocator demo_host ''foo'' ''/c/_npx/1/bin'' demo_proc)
       = Fulfilled (JStr (path_resolve demo_host ''/c/_npx/1/bin'' ''bar''))
   \<and> last (trace (snd (npx 1 demo_host demo_argv demo_proc)))
       = Stat ''/home/u/.npm/_npx/4242/bin/bar''"
  by (simp add: npx_simps run_simps demo_simps)

theorem commandLocator_ignores_match_witness:
  "fst (commandLocator demo_host ''foo'' ''/c/_npx/1/bin'' demo_proc)
     \<noteq> Fulfilled (JStr (path_resolve demo_host ''/c/_npx/1/bin'' ''Foo.cmd''))"
  using commandLocator_ignores_match by (simp add: demo_host_def)

text \<open>
  C2, as the claim states it, fails: when the entry point of a local package directory
  classifies as no script, the error names the resolved entry point, not the directory.
  The rejection is raised inside the \<open>then\<close> handler, out of reach of the \<open>catch\<close>
  block that names the directory.
\<close>

theorem directory_not_found_names_entry_point:
  "fs_stat demo_host ''/proj/pkg'' = Fulfilled True
   \<and> require_package demo_host ''/proj/pkg/package.json'' = Some \<lparr>bin = PFalsy, main = PStr ''lib.txt''\<rparr>
   \<and> fst (findNodeScript 1 demo_host (JStr ''/proj/pkg/lib.txt'')
            (Some (demo_argv\<lparr>isLocal := True\<rparr>)) demo_proc) = Fulfilled JFalse
   \<and> fst (findNodeScript 2 demo_host (JStr ''/proj/pkg'')
            (Some (demo_argv\<lparr>isLocal := True\<rparr>)) demo_proc) =
       Rejected (Error ''command not found: /proj/pkg/lib.txt'')
   \<and> Error ''command not found: /proj/pkg/lib.txt'' \<noteq> Error ''command not found: /proj/pkg''"
  by (simp add: run_simps numeral_2_eq_2 demo_simps)

text \<open>
  C2 (amended).  For a target marked local that is a directory and does not end in
  \<open>.js\<close>: if the manifest cannot be loaded, or its entry point (\<open>bin\<close>, else \<open>main\<close>,
  else \<open>index.js\<close>) is not a string, \<open>findNodeScript\<close> fails with "command not found"
  naming the directory; if the classification of the entry point gives no script, it
  fails with "command not found" naming the resolved entry point; and if that
  classification fails, its error is passed on unchanged.
\<close>

theorem directory_not_found:
  assumes "existing \<noteq> []"
    and "opts_isLocal opts"
    and "path_extname w existing \<noteq> ''.js''"
    and "fs_stat w existing = Fulfilled True"
  shows "(require_package w (path_resolve w existing ''package.json'') = None \<longrightarrow>
            fst (findNodeScript (Suc n) w (JStr existing) opts s) =
              Rejected (Error (''command not found: '' @ existing)))
       \<and> (require_package w (path_resolve w existing ''package.json'') = Some pkg
            \<and> or_else (or_else (bin pkg) (main pkg)) (PStr ''index.js'') \<in> {PTruthy, PFalsy} \<longrightarrow>
            fst (findNodeScript (Suc n) w (JStr existing) opts s) =
              Rejected (Error (''command not found: '' @ existing)))
       \<and> (require_package w (path_resolve w existing ''package.json'') = Some pkg
            \<and> or_else (or_else (bin pkg) (main pkg)) (PStr ''index.js'') = PStr entry
            \<and> findNodeScript n w (JStr (path_resolve w existing entry)) opts
                 (s\<lparr>trace := trace s @ [Stat existing, Require (path_resolve w existing ''package.json'')]\<rparr>)
               = (Fulfilled script, s')
            \<and> \<not> truthy script \<longrightarrow>
            fst (findNodeScript (Suc n) w (JStr existing) opts s) =
              Rejected (Error (''command not found: '' @ path_resolve w existing entry)))
       \<and> (require_package w (path_resolve w existing ''package.json'') = Some pkg
            \<and> or_else (or_else (bin pkg) (main pkg)) (PStr ''index.js'') = PStr entry
            \<and> findNodeScript n w (JStr (path_resolve w existing entry)) opts
                 (s\<lparr>trace := trace s @ [Stat existing, Require (path_resolve w existing ''package.json'')]\<rparr>)
               = (Rejected e, s') \<longrightarrow>
            fst (findNodeScript (Suc n) w (JStr existing) opts s) = Rejected e)"
  using assms
  by (auto simp add: findNodeScript.simps package_entry_def then_p_def ask_def emit_def Let_def
      resolved_def rejected_def Y_def)

theorem directory_not_found_witness:
  "fst (findNodeScript 1 demo_host (JStr ''/proj/broken'') (Some (demo_argv\<lparr>isLocal := True\<rparr>)) demo_proc)
     = Rejected (Error ''command not found: /proj/broken'')
   \<and> fst (findNodeScript 1
            (demo_host\<lparr>require_package := (\<lambda>file. Some \<lparr>bin = PTruthy, main = PFalsy\<rparr>)\<rparr>)
            (JStr ''/proj/pkg'') (Some (demo_argv\<lparr>isLocal := True\<rparr>)) demo_proc)
     = Rejected (Error ''command not found: /proj/pkg'')
   \<and> fst (findNodeScript 2 demo_host (JStr ''/proj/pkg'') (Some (demo_argv\<lparr>isLocal := True\<rparr>)) demo_proc)
     = Rejected (Error ''command not found: /proj/pkg/lib.txt'')
   \<and> fst (findNodeScript 2
            (demo_host\<lparr>require_package := (\<lambda>file. Some \<lparr>bin = PFalsy, main = PStr ''gone.txt''\<rparr>)\<rparr>)
            (JStr ''/proj/pkg'') (Some (demo_argv\<lparr>isLocal := True\<rparr>)) demo_proc)
     = Rejected (ENOENT ''stat /proj/pkg/gone.txt'')"
proof -
  let ?opts = "Some (demo_argv\<lparr>isLocal := True\<rparr>)"
  let ?h2 = "demo_host\<lparr>require_package := (\<lambda>file. Some \<lparr>bin = PTruthy, main = PFalsy\<rparr>)\<rparr>"
  let ?h4 = "demo_host\<lparr>require_package := (\<lambda>file. Some \<lparr>bin = PFalsy, main = PStr ''gone.txt''\<rparr>)\<rparr>"
  let ?s1 = "demo_proc\<lparr>trace := trace demo_proc @ [Stat ''/proj/pkg'', Require (path_resolve demo_host ''/proj/pkg'' ''package.json'')]\<rparr>"
  have a: "fst (findNodeScript 1 demo_host (JStr ''/proj/broken'') ?opts demo_proc)
     = Rejected (Error ''command not found: /proj/broken'')"
    using directory_not_found [where w = demo_host and existing = "''/proj/broken''"
        and opts = ?opts and n = 0 and s = demo_proc]
    by (simp add: demo_simps)
  have b: "fst (findNodeScript 1 ?h2 (JStr ''/proj/pkg'') ?opts demo_proc)
     = Rejected (Error ''command not found: /proj/pkg'')"
    using directory_not_found [where w = ?h2 and existing = "''/proj/pkg''"
        and opts = ?opts and n = 0 and s = demo_proc and pkg = "\<lparr>bin = PTruthy, main = PFalsy\<rparr>"]
    by (simp add: demo_simps or_else_def)
  have inner: "findNodeScript 1 demo_host (JStr ''/proj/pkg/lib.txt'') ?opts ?s1 =
      (Fulfilled JFalse, ?s1\<lparr>trace := trace ?s1 @
          [Stat ''/proj/pkg/lib.txt'', Open ''/proj/pkg/lib.txt'', Read 3 20 0, Close 3]\<rparr>)"
    by (simp add: run_simps demo_simps)
  have c: "fst (findNodeScript 2 demo_host (JStr ''/proj/pkg'') ?opts demo_proc)
     = Rejected (Error ''command not found: /proj/pkg/lib.txt'')"
    using inner directory_not_found [where w = demo_host and existing = "''/proj/pkg''"
        and opts = ?opts and n = 1 and s = demo_proc and pkg = "\<lparr>bin = PFalsy, main = PStr ''lib.txt''\<rparr>"
        and entry = "''lib.txt''" and script = JFalse
        and s' = "?s1\<lparr>trace := trace ?s1 @
          [Stat ''/proj/pkg/lib.txt'', Open ''/proj/pkg/lib.txt'', Read 3 20 0, Close 3]\<rparr>"]
    by (simp add: demo_simps or_else_def numeral_2_eq_2)
  have inner4: "findNodeScript 1 ?h4 (JStr ''/proj/pkg/gone.txt'') ?opts ?s1 =
      (Rejected (ENOENT ''stat /proj/pkg/gone.txt''), ?s1\<lparr>trace := trace ?s1 @ [Stat ''/proj/pkg/gone.txt'']\<rparr>)"
    by (simp add: run_simps demo_simps)
  have d: "fst (findNodeScript 2 ?h4 (JStr ''/proj/pkg'') ?opts demo_proc)
     = Rejected (ENOENT ''stat /proj/pkg/gone.txt'')"
    using inner4 directory_not_found [where w = ?h4 and existing = "''/proj/pkg''"
        and opts = ?opts and n = 1 and s = demo_proc and pkg = "\<lparr>bin = PFalsy, main = PStr ''gone.txt''\<rparr>"
        and entry = "''gone.txt''" and e = "ENOENT ''stat /proj/pkg/gone.txt''"
        and s' = "?s1\<lparr>trace := trace ?s1 @ [Stat ''/proj/pkg/gone.txt'']\<rparr>"]
    by (simp add: demo_simps or_else_def numeral_2_eq_2)
  from a b c d show ?thesis by simp
qed

text \<open>
  C3, as the claim states it, fails: with a command string (\<open>-c\<close>, \<open>argv.call\<close>) the
  installer is skipped even though the command was not found, because the test is
  \<open>(!existing && !argv.call) || argv.packageRequested\<close>.
\<close>

theorem call_mode_skips_install:
  "fst (existing_path demo_host (demo_argv\<lparr>call := Some ''foo --version''\<rparr>)
          (prepend_PATH demo_host ''/proj/node_modules/.bin'' (demo_proc\<lparr>trace := [GetPrefix ''/proj'']\<rparr>)))
     = Fulfilled JUndefined
   \<and> \<not> truthy JUndefined
   \<and> \<not> packageRequested (demo_argv\<lparr>call := Some ''foo --version''\<rparr>)
   \<and> trace (snd (npx 1 demo_host (demo_argv\<lparr>call := Some ''foo --version''\<rparr>) demo_proc))
     = [GetPrefix ''/proj'', Which ''foo'', Exec ''npm'' [''run'', ''env'', ''--parseable''],
        RunCommand JFalse]"
  by (simp add: npx_simps run_simps demo_simps)

text \<open>
  C3 (amended).  For every invocation (started with an empty trace):
  \<open>ensurePackages\<close> is entered only in a run that comes to the decision, that is, no
  shell fallback was asked for, a command or a command string was given, and the local
  prefix and both lookups were fulfilled.  In such a run: if a path for the command was
  found, or the request carries a command string, and the package was not explicitly
  requested, \<open>ensurePackages\<close> is never entered; in every other case (nothing found
  and no command string, or the package explicitly requested) it is entered, and
  before any event of classification or execution.  In a run that does not come to the
  decision (among them a lookup that fails, such as a missed command when installation
  is disabled) \<open>ensurePackages\<close> is never entered.
\<close>

theorem install_decision:
  assumes "trace s = []"
  shows "(shell_auto_fallback av \<noteq> None \<or> (\<not> truthy_s (call av) \<and> \<not> truthy_s (command av)) \<longrightarrow>
            (\<forall>specs. EnsurePackages specs \<notin> set (trace (snd (npx n w av s)))))
       \<and> (shell_auto_fallback av = None \<and> (truthy_s (call av) \<or> truthy_s (command av)) \<longrightarrow>
            ((\<forall>dir. fst (localBinPath w (cwd w) s) \<noteq> Fulfilled dir) \<longrightarrow>
               (\<forall>specs. EnsurePackages specs \<notin> set (trace (snd (npx n w av s)))))
          \<and> (localBinPath w (cwd w) s = (Fulfilled local, s0)
              \<and> all2 (env_settles_first w) (existing_path w av) (new_env w av)
                    (if local \<noteq> [] then prepend_PATH w local s0 else s0) = (r, s1) \<longrightarrow>
                ((\<forall>x. r \<noteq> Fulfilled x) \<longrightarrow>
                   (\<forall>specs. EnsurePackages specs \<notin> set (trace (snd (npx n w av s)))))
              \<and> (r = Fulfilled (existing, newEnv)
                  \<and> (truthy existing \<or> truthy_s (call av)) \<and> \<not> packageRequested av \<longrightarrow>
                   (\<forall>specs. EnsurePackages specs \<notin> set (trace (snd (npx n w av s)))))
              \<and> (r = Fulfilled (existing, newEnv)
                  \<and> ((\<not> truthy existing \<and> \<not> truthy_s (call av)) \<or> packageRequested av) \<longrightarrow>
                   (\<exists>pre post. trace (snd (npx n w av s)) = pre @ EnsurePackages (package av) # post
                      \<and> (\<forall>e \<in> set pre. \<not> executor_event e)))))"
proof (intro conjI impI)
  assume "shell_auto_fallback av \<noteq> None \<or> (\<not> truthy_s (call av) \<and> \<not> truthy_s (command av))"
  then have "trace (snd (npx n w av s)) = []"
    using assms by (rule npx_early_trace)
  then show "\<forall>specs. EnsurePackages specs \<notin> set (trace (snd (npx n w av s)))" by simp
next
  assume reach: "shell_auto_fallback av = None \<and> (truthy_s (call av) \<or> truthy_s (command av))"
  assume "\<forall>dir. fst (localBinPath w (cwd w) s) \<noteq> Fulfilled dir"
  moreover from reach have "shell_auto_fallback av = None"
    and "truthy_s (call av) \<or> truthy_s (command av)" by blast+
  ultimately have "trace (snd (npx n w av s)) = trace s @ [GetPrefix (cwd w)]"
    by (intro npx_prefix_fails_trace)
  then show "\<forall>specs. EnsurePackages specs \<notin> set (trace (snd (npx n w av s)))"
    using assms by simp
next
  assume reach: "shell_auto_fallback av = None \<and> (truthy_s (call av) \<or> truthy_s (command av))"
  assume run: "localBinPath w (cwd w) s = (Fulfilled local, s0)
              \<and> all2 (env_settles_first w) (existing_path w av) (new_env w av)
                    (if local \<noteq> [] then prepend_PATH w local s0 else s0) = (r, s1)"
  assume fails: "\<forall>x. r \<noteq> Fulfilled x"
  obtain evs1 where t1: "trace s1 = GetPrefix (cwd w) # evs1" and l1: "list_all lookup_event evs1"
    using lookups_trace [OF assms] run by blast
  from reach have r1: "shell_auto_fallback av = None"
    and r2: "truthy_s (call av) \<or> truthy_s (command av)" by blast+
  from run have l: "localBinPath w (cwd w) s = (Fulfilled local, s0)"
    and a: "all2 (env_settles_first w) (existing_path w av) (new_env w av)
              (if local \<noteq> [] then prepend_PATH w local s0 else s0) = (r, s1)" by blast+
  have "trace (snd (npx n w av s)) = trace s1"
    using r1 r2 l a fails by (rule npx_lookup_fails_trace)
  then have tr: "trace (snd (npx n w av s)) = GetPrefix (cwd w) # evs1" using t1 by simp
  show "\<forall>specs. EnsurePackages specs \<notin> set (trace (snd (npx n w av s)))"
  proof (intro allI notI)
    fix specs
    assume "EnsurePackages specs \<in> set (trace (snd (npx n w av s)))"
    then have "lookup_event (EnsurePackages specs)"
      using l1 unfolding tr by (auto simp add: list_all_iff)
    then show False by simp
  qed
next
  assume reach: "shell_auto_fallback av = None \<and> (truthy_s (call av) \<or> truthy_s (command av))"
  assume run: "localBinPath w (cwd w) s = (Fulfilled local, s0)
              \<and> all2 (env_settles_first w) (existing_path w av) (new_env w av)
                    (if local \<noteq> [] then prepend_PATH w local s0 else s0) = (r, s1)"
  assume skip: "r = Fulfilled (existing, newEnv)
                  \<and> (truthy existing \<or> truthy_s (call av)) \<and> \<not> packageRequested av"
  let ?R = "resolve_existing w av (existing, newEnv) s1"
  obtain evs1 where t1: "trace s1 = GetPrefix (cwd w) # evs1" and l1: "list_all lookup_event evs1"
    using lookups_trace [OF assms] run by blast
  obtain evs3 where t3: "trace (snd (npx n w av s)) = trace (snd ?R) @ evs3"
    and l3: "list_all executor_event evs3"
    using npx_decided_trace [of av w s local s0 existing newEnv s1 n] reach run skip by blast
  have "?R = (Fulfilled existing, (case newEnv of Some e \<Rightarrow> s1\<lparr>env := e\<rparr> | None \<Rightarrow> s1))"
    using skip by (auto simp add: resolve_existing_def installs_def Let_def)
  then have "trace (snd ?R) = trace s1" by (simp split: option.splits)
  then have tr: "trace (snd (npx n w av s)) = GetPrefix (cwd w) # evs1 @ evs3"
    using t3 t1 by simp
  have kinds: "\<forall>e \<in> set (GetPrefix (cwd w) # evs1 @ evs3). lookup_event e \<or> executor_event e"
    using l1 l3 by (auto simp add: list_all_iff)
  show "\<forall>specs. EnsurePackages specs \<notin> set (trace (snd (npx n w av s)))"
  proof (intro allI notI)
    fix specs
    assume "EnsurePackages specs \<in> set (trace (snd (npx n w av s)))"
    then have "lookup_event (EnsurePackages specs) \<or> executor_event (EnsurePackages specs)"
      using kinds unfolding tr by blast
    then show False by simp
  qed
next
  assume reach: "shell_auto_fallback av = None \<and> (truthy_s (call av) \<or> truthy_s (command av))"
  assume run: "localBinPath w (cwd w) s = (Fulfilled local, s0)
              \<and> all2 (env_settles_first w) (existing_path w av) (new_env w av)
                    (if local \<noteq> [] then prepend_PATH w local s0 else s0) = (r, s1)"
  assume inst: "r = Fulfilled (existing, newEnv)
                  \<and> ((\<not> truthy existing \<and> \<not> truthy_s (call av)) \<or> packageRequested av)"
  let ?R = "resolve_existing w av (existing, newEnv) s1"
  obtain evs1 where t1: "trace s1 = GetPrefix (cwd w) # evs1" and l1: "list_all lookup_event evs1"
    using lookups_trace [OF assms] run by blast
  obtain evs3 where t3: "trace (snd (npx n w av s)) = trace (snd ?R) @ evs3"
    using npx_decided_trace [of av w s local s0 existing newEnv s1 n] reach run inst by blast
  have "installs av existing" using inst by (simp add: installs_def)
  then obtain evs2 where "trace (snd ?R) =
         trace s1 @ (if truthy_s (npxPkg av) then [UpdateNotifier (tmpl (npxPkg av))] else [])
           @ EnsurePackages (package av) # evs2"
    using resolve_existing_installs_trace by blast
  then have "trace (snd (npx n w av s)) =
      (GetPrefix (cwd w) # evs1 @ (if truthy_s (npxPkg av) then [UpdateNotifier (tmpl (npxPkg av))] else []))
        @ EnsurePackages (package av) # (evs2 @ evs3)"
    using t3 t1 by simp
  moreover have "\<forall>e \<in> set (GetPrefix (cwd w) # evs1 @
      (if truthy_s (npxPkg av) then [UpdateNotifier (tmpl (npxPkg av))] else [])). \<not> executor_event e"
  proof
    fix e
    assume "e \<in> set (GetPrefix (cwd w) # evs1 @
      (if truthy_s (npxPkg av) then [UpdateNotifier (tmpl (npxPkg av))] else []))"
    then have "lookup_event e" using l1 by (auto simp add: list_all_iff split: if_splits)
    then show "\<not> executor_event e" by (cases e) simp_all
  qed
  ultimately show "\<exists>pre post. trace (snd (npx n w av s)) = pre @ EnsurePackages (package av) # post
             \<and> (\<forall>e \<in> set pre. \<not> executor_event e)"
    by blast
qed

theorem install_decision_witness:
  "(\<forall>specs. EnsurePackages specs \<notin>
       set (trace (snd (npx 1 demo_host (demo_argv\<lparr>command := None\<rparr>) demo_proc))))
   \<and> (\<forall>specs. EnsurePackages specs \<notin>
       set (trace (snd (npx 1 (demo_host\<lparr>get_prefix := (\<lambda>dir. Rejected (Error ''EACCES''))\<rparr>)
                         demo_argv demo_proc))))
   \<and> (\<forall>specs. EnsurePackages specs \<notin>
       set (trace (snd (npx 1 demo_host (demo_argv\<lparr>install := Some False\<rparr>) demo_proc))))
   \<and> (\<forall>specs. EnsurePackages specs \<notin>
       set (trace (snd (npx 1 demo_host (demo_argv\<lparr>command := Some ''ls''\<rparr>) demo_proc))))
   \<and> (\<exists>pre post. trace (snd (npx 1 demo_host demo_argv demo_proc))
          = pre @ EnsurePackages (package demo_argv) # post
        \<and> (\<forall>e \<in> set pre. \<not> executor_event e))"
proof -
  let ?s0 = "demo_proc\<lparr>trace := [GetPrefix ''/proj'']\<rparr>"
  let ?local = "''/proj/node_modules/.bin''"
  let ?s1 = "\<lambda>c. demo_proc\<lparr>env := [''PATH'' \<mapsto> ''/proj/node_modules/.bin:/usr/bin:/bin''],
                           trace := [GetPrefix ''/proj'', Which c]\<rparr>"
  let ?none = "demo_argv\<lparr>command := None\<rparr>"
  let ?wp = "demo_host\<lparr>get_prefix := (\<lambda>dir. Rejected (Error ''EACCES''))\<rparr>"
  let ?off = "demo_argv\<lparr>install := Some False\<rparr>"
  let ?ls = "demo_argv\<lparr>command := Some ''ls''\<rparr>"
  have t: "trace demo_proc = []" by (simp add: demo_simps)
  have e: "\<not> truthy_s (call ?none) \<and> \<not> truthy_s (command ?none)" by (simp add: demo_simps)
  have g: "shell_auto_fallback demo_argv = None \<and> (truthy_s (call demo_argv) \<or> truthy_s (command demo_argv))"
    "shell_auto_fallback ?off = None \<and> (truthy_s (call ?off) \<or> truthy_s (command ?off))"
    "shell_auto_fallback ?ls = None \<and> (truthy_s (call ?ls) \<or> truthy_s (command ?ls))"
    by (simp_all add: demo_simps)
  have p: "\<forall>dir. fst (localBinPath ?wp (cwd ?wp) demo_proc) \<noteq> Fulfilled dir"
    by (simp add: step_simps run_simps demo_simps)
  have l: "localBinPath demo_host (cwd demo_host) demo_proc = (Fulfilled ?local, ?s0)"
    by (simp add: step_simps run_simps demo_simps)
  have a_off: "all2 (env_settles_first demo_host) (existing_path demo_host ?off) (new_env demo_host ?off)
             (if ?local \<noteq> [] then prepend_PATH demo_host ?local ?s0 else ?s0)
           = (Rejected ((ENOENT ''foo'')\<lparr>exitCode := Some 127\<rparr>), ?s1 ''foo'')"
    by (simp add: step_simps run_simps demo_simps)
  have a_ls: "all2 (env_settles_first demo_host) (existing_path demo_host ?ls) (new_env demo_host ?ls)
             (if ?local \<noteq> [] then prepend_PATH demo_host ?local ?s0 else ?s0)
           = (Fulfilled (JStr ''/bin/ls'', None), ?s1 ''ls'')"
    by (simp add: step_simps run_simps demo_simps)
  have a_foo: "all2 (env_settles_first demo_host) (existing_path demo_host demo_argv) (new_env demo_host demo_argv)
             (if ?local \<noteq> [] then prepend_PATH demo_host ?local ?s0 else ?s0)
           = (Fulfilled (JUndefined, None), ?s1 ''foo'')"
    by (simp add: step_simps run_simps demo_simps)
  have k: "truthy (JStr ''/bin/ls'')" "\<not> packageRequested ?ls"
    "\<not> truthy JUndefined" "\<not> truthy_s (call demo_argv)"
    by (simp_all add: demo_simps)
  have 1: "\<forall>specs. EnsurePackages specs \<notin> set (trace (snd (npx 1 demo_host ?none demo_proc)))"
    using install_decision [OF t, where w = demo_host and av = ?none and n = 1] e by blast
  have 2: "\<forall>specs. EnsurePackages specs \<notin> set (trace (snd (npx 1 ?wp demo_argv demo_proc)))"
    using install_decision [OF t, where w = ?wp and av = demo_argv and n = 1] g(1) p by blast
  have 3: "\<forall>specs. EnsurePackages specs \<notin> set (trace (snd (npx 1 demo_host ?off demo_proc)))"
    using g(2) l a_off
      install_decision [OF t, where w = demo_host and av = ?off and n = 1 and local = ?local
        and ?s0.0 = ?s0 and r = "Rejected ((ENOENT ''foo'')\<lparr>exitCode := Some 127\<rparr>)"
        and ?s1.0 = "?s1 ''foo''"]
    by simp
  have 4: "\<forall>specs. EnsurePackages specs \<notin> set (trace (snd (npx 1 demo_host ?ls demo_proc)))"
    using g(3) l a_ls k(1,2)
      install_decision [OF t, where w = demo_host and av = ?ls and n = 1 and local = ?local
        and ?s0.0 = ?s0 and r = "Fulfilled (JStr ''/bin/ls'', None)" and ?s1.0 = "?s1 ''ls''"
        and existing = "JStr ''/bin/ls''" and newEnv = None]
    by simp
  have 5: "\<exists>pre post. trace (snd (npx 1 demo_host demo_argv demo_proc))
          = pre @ EnsurePackages (package demo_argv) # post
        \<and> (\<forall>e \<in> set pre. \<not> executor_event e)"
    using g(1) l a_foo k(3,4)
      install_decision [OF t, where w = demo_host and av = demo_argv and n = 1 and local = ?local
        and ?s0.0 = ?s0 and r = "Fulfilled (JUndefined, None)" and ?s1.0 = "?s1 ''foo''"
        and existing = JUndefined and newEnv = None]
    by simp
  from 1 2 3 4 5 show ?thesis by simp
qed

text \<open>
  C4, as the claim states it, fails: a target marked local whose extension is \<open>.js\<close>
  is classified as loadable before any sniff, whatever its first bytes, and on win32 too.
\<close>

theorem local_script_loadable_without_shebang:
  "fs_stat demo_host ''/proj/a.js'' = Fulfilled False
   \<and> take 20 ''console.log(2)'' \<noteq> line
   \<and> fst (findNodeScript 1 demo_host (JStr ''/proj/a.js'')
            (Some (demo_argv\<lparr>isLocal := True\<rparr>)) demo_proc) = Fulfilled (JStr ''/proj/a.js'')
   \<and> win32 (demo_host\<lparr>win32 := True\<rparr>)
   \<and> fst (findNodeScript 1 (demo_host\<lparr>win32 := True\<rparr>) (JStr ''/proj/a.js'')
            (Some (demo_argv\<lparr>isLocal := True\<rparr>)) demo_proc) = Fulfilled (JStr ''/proj/a.js'')"
  by (simp add: findNodeScript.simps demo_simps then_p_def ask_def resolved_def)

text \<open>
  C4 (amended).  For an existing path, on every platform: if the request marks the
  target local and \<open>path.extname\<close> of the path is \<open>.js\<close>, \<open>findNodeScript\<close> classifies
  it as loadable after the \<open>stat\<close> alone, opening nothing.  If neither local branch
  takes the path (the request does not mark it local, or its extension is not \<open>.js\<close>
  and it is not a directory): on a POSIX platform \<open>findNodeScript\<close> asks for exactly
  20 bytes, the length of the line \<open>#!/usr/bin/env node\<close> with its newline, from
  position 0, closes the file, and classifies the path as loadable if and only if the
  bytes read are that line; on win32 nothing is opened and the result is \<open>undefined\<close>,
  not loadable.
\<close>

theorem shebang_sniff_exact:
  assumes "existing \<noteq> []"
    and "fs_stat w existing = Fulfilled isDirectory"
  shows "(opts_isLocal opts \<and> path_extname w existing = ''.js'' \<longrightarrow>
          findNodeScript (Suc n) w (JStr existing) opts s =
            (Fulfilled (JStr existing), s\<lparr>trace := trace s @ [Stat existing]\<rparr>))
       \<and> (\<not> (opts_isLocal opts \<and> (path_extname w existing = ''.js'' \<or> isDirectory)) \<longrightarrow>
            (\<not> win32 w \<and> fs_open w existing = Fulfilled fd \<and> fs_read w fd 20 0 = Fulfilled bytes
                \<and> fs_close w fd = Fulfilled () \<longrightarrow>
              length line = 20 \<and>
              findNodeScript (Suc n) w (JStr existing) opts s =
                (Fulfilled (if take 20 bytes = line then JStr existing else JFalse),
                 s\<lparr>trace := trace s @ [Stat existing, Open existing, Read fd 20 0, Close fd]\<rparr>))
          \<and> (win32 w \<longrightarrow>
              findNodeScript (Suc n) w (JStr existing) opts s =
                (Fulfilled JUndefined, s\<lparr>trace := trace s @ [Stat existing]\<rparr>)))"
proof (intro conjI impI)
  assume "opts_isLocal opts \<and> path_extname w existing = ''.js''"
  then show "findNodeScript (Suc n) w (JStr existing) opts s =
            (Fulfilled (JStr existing), s\<lparr>trace := trace s @ [Stat existing]\<rparr>)"
    using assms by (simp add: findNodeScript.simps then_p_def ask_def emit_def resolved_def)
next
  assume other: "\<not> (opts_isLocal opts \<and> (path_extname w existing = ''.js'' \<or> isDirectory))"
  show "length line = 20" by (rule line_length)
  assume posix: "\<not> win32 w \<and> fs_open w existing = Fulfilled fd \<and> fs_read w fd 20 0 = Fulfilled bytes
            \<and> fs_close w fd = Fulfilled ()"
  then show "findNodeScript (Suc n) w (JStr existing) opts s =
            (Fulfilled (if take 20 bytes = line then JStr existing else JFalse),
             s\<lparr>trace := trace s @ [Stat existing, Open existing, Read fd 20 0, Close fd]\<rparr>)"
    by (simp add: findNodeScript_sniff_branch [OF assms other] sniff_run emit_def)
next
  assume other: "\<not> (opts_isLocal opts \<and> (path_extname w existing = ''.js'' \<or> isDirectory))"
  assume "win32 w"
  then show "findNodeScript (Suc n) w (JStr existing) opts s =
            (Fulfilled JUndefined, s\<lparr>trace := trace s @ [Stat existing]\<rparr>)"
    by (simp add: findNodeScript_sniff_branch [OF assms other] emit_def)
qed

theorem shebang_sniff_exact_witness:
  "fst (findNodeScript 1 demo_host (JStr ''/proj/tool'') (Some demo_argv) demo_proc) =
     Fulfilled (JStr ''/proj/tool'')
   \<and> fst (findNodeScript 1 demo_host (JStr ''/proj/Tool'') (Some demo_argv) demo_proc) =
     Fulfilled JFalse
   \<and> fst (findNodeScript 1 demo_host (JStr ''/proj/tool2'') (Some demo_argv) demo_proc) =
     Fulfilled JFalse
   \<and> findNodeScript 1 (demo_host\<lparr>win32 := True\<rparr>) (JStr ''/proj/tool'') (Some demo_argv) demo_proc =
     (Fulfilled JUndefined, demo_proc\<lparr>trace := trace demo_proc @ [Stat ''/proj/tool'']\<rparr>)
   \<and> findNodeScript 1 demo_host (JStr ''/proj/a.js'') (Some (demo_argv\<lparr>isLocal := True\<rparr>)) demo_proc =
     (Fulfilled (JStr ''/proj/a.js''), demo_proc\<lparr>trace := trace demo_proc @ [Stat ''/proj/a.js'']\<rparr>)
   \<and> findNodeScript 1 (demo_host\<lparr>win32 := True\<rparr>) (JStr ''/proj/a.js'')
       (Some (demo_argv\<lparr>isLocal := True\<rparr>)) demo_proc =
     (Fulfilled (JStr ''/proj/a.js''), demo_proc\<lparr>trace := trace demo_proc @ [Stat ''/proj/a.js'']\<rparr>)"
proof -
  have a: "fst (findNodeScript 1 demo_host (JStr ''/proj/tool'') (Some demo_argv) demo_proc) =
     Fulfilled (JStr ''/proj/tool'')"
    using shebang_sniff_exact [where w = demo_host and existing = "''/proj/tool''"
        and isDirectory = False and opts = "Some demo_argv" and fd = 4 and bytes = line
        and n = 0 and s = demo_proc]
    by (simp add: demo_simps)
  have b: "fst (findNodeScript 1 demo_host (JStr ''/proj/Tool'') (Some demo_argv) demo_proc) =
     Fulfilled JFalse"
    using shebang_sniff_exact [where w = demo_host and existing = "''/proj/Tool''"
        and isDirectory = False and opts = "Some demo_argv" and fd = 6
        and bytes = "''#!/usr/bin/env NODE'' @ [CHR 0x0A]" and n = 0 and s = demo_proc]
    by (simp add: demo_simps)
  have c: "fst (findNodeScript 1 demo_host (JStr ''/proj/tool2'') (Some demo_argv) demo_proc) =
     Fulfilled JFalse"
    using shebang_sniff_exact [where w = demo_host and existing = "''/proj/tool2''"
        and isDirectory = False and opts = "Some demo_argv" and fd = 7
        and bytes = "''#!/usr/bin/env node ''" and n = 0 and s = demo_proc]
    by (simp add: demo_simps)
  have d: "findNodeScript 1 (demo_host\<lparr>win32 := True\<rparr>) (JStr ''/proj/tool'') (Some demo_argv) demo_proc =
     (Fulfilled JUndefined, demo_proc\<lparr>trace := trace demo_proc @ [Stat ''/proj/tool'']\<rparr>)"
    using shebang_sniff_exact [where w = "demo_host\<lparr>win32 := True\<rparr>" and existing = "''/proj/tool''"
        and isDirectory = False and opts = "Some demo_argv" and n = 0 and s = demo_proc]
    by (simp add: demo_simps)
  have e: "findNodeScript 1 demo_host (JStr ''/proj/a.js'') (Some (demo_argv\<lparr>isLocal := True\<rparr>)) demo_proc =
     (Fulfilled (JStr ''/proj/a.js''), demo_proc\<lparr>trace := trace demo_proc @ [Stat ''/proj/a.js'']\<rparr>)"
    using shebang_sniff_exact [where w = demo_host and existing = "''/proj/a.js''"
        and isDirectory = False and opts = "Some (demo_argv\<lparr>isLocal := True\<rparr>)" and n = 0
        and s = demo_proc]
    by (simp add: demo_simps)
  have f: "findNodeScript 1 (demo_host\<lparr>win32 := True\<rparr>) (JStr ''/proj/a.js'')
       (Some (demo_argv\<lparr>isLocal := True\<rparr>)) demo_proc =
     (Fulfilled (JStr ''/proj/a.js''), demo_proc\<lparr>trace := trace demo_proc @ [Stat ''/proj/a.js'']\<rparr>)"
    using shebang_sniff_exact [where w = "demo_host\<lparr>win32 := True\<rparr>" and existing = "''/proj/a.js''"
        and isDirectory = False and opts = "Some (demo_argv\<lparr>isLocal := True\<rparr>)" and n = 0
        and s = demo_proc]
    by (simp add: demo_simps)
  from a b c d e f show ?thesis by simp
qed

text \<open>
  C5, as the claim states it, fails: with a command string (\<open>-c\<close>) the handler of
  \<open>Promise.all\<close> replaces \<open>process.env\<close> by the environment captured from the package
  manager, and the local prefix set before is gone with the old environment.  The value
  the install prefix is put in front of is then the captured \<open>PATH\<close>: here a local
  binary directory was found, and the final search path does not hold it.
\<close>

theorem captured_env_drops_local_prefix:
  "fst (localBinPath demo_host (cwd demo_host) demo_proc) = Fulfilled ''/proj/node_modules/.bin''
   \<and> env demo_proc ''PATH'' = Some ''/usr/bin:/bin''
   \<and> env (snd (npx 1 demo_host (demo_argv\<lparr>call := Some ''foo'', packageRequested := True\<rparr>) demo_proc))
         ''PATH''
       = Some ''/home/u/.npm/_npx/4242/bin:/usr/bin''
   \<and> ''/home/u/.npm/_npx/4242/bin:/usr/bin''
       \<noteq> ''/home/u/.npm/_npx/4242/bin'' @ '':'' @ ''/proj/node_modules/.bin'' @ '':'' @ ''/usr/bin:/bin''"
  by (simp add: npx_simps run_simps demo_simps)

text \<open>
  C5 (amended).  In a run of \<open>npx\<close> that comes to a successful install (the local prefix
  and both lookups fulfilled, \<open>ensurePackages\<close> fulfilled), the search path at the end
  is the binary directory of the install, the separator (\<open>:\<close>, or \<open>;\<close> on win32),
  and the value the variable had just before.  A lifecycle environment is captured
  exactly when the request carries a command string (\<open>-c\<close>).  When none was captured,
  that value is the local binary directory, the separator and the
  original value (the original value alone when the local directory is the empty
  string), so the installed directory comes before the local one and the original
  entries.  When a lifecycle environment was captured, that value is the \<open>PATH\<close> of the
  captured environment, whatever it holds.
\<close>

theorem install_path_first:
  assumes "shell_auto_fallback av = None"
    and "truthy_s (call av) \<or> truthy_s (command av)"
    and "localBinPath w (cwd w) s = (Fulfilled local, s0)"
    and "all2 (env_settles_first w) (existing_path w av) (new_env w av)
           (if local \<noteq> [] then prepend_PATH w local s0 else s0) = (Fulfilled (existing, newEnv), s1)"
    and "(\<not> truthy existing \<and> \<not> truthy_s (call av)) \<or> packageRequested av"
    and "ensurePackages w (package av) av
           (if truthy_s (npxPkg av)
            then emit (UpdateNotifier (tmpl (npxPkg av)))
                   (case newEnv of Some e \<Rightarrow> s1\<lparr>env := e\<rparr> | None \<Rightarrow> s1)
            else (case newEnv of Some e \<Rightarrow> s1\<lparr>env := e\<rparr> | None \<Rightarrow> s1))
         = (Fulfilled results, s2)"
  shows "env (snd (npx n w av s)) ''PATH'' =
           Some (info_bin results @ (if win32 w then '';'' else '':'') @
                 (case newEnv of
                    Some e \<Rightarrow> tmpl (e ''PATH'')
                  | None \<Rightarrow>
                      if local \<noteq> [] then local @ (if win32 w then '';'' else '':'') @ tmpl (env s ''PATH'')
                      else tmpl (env s ''PATH'')))
       \<and> (newEnv = None \<longleftrightarrow> \<not> truthy_s (call av))"
proof -
  let ?sA = "(if local \<noteq> [] then prepend_PATH w local s0 else s0)"
  let ?sB = "(case newEnv of Some e \<Rightarrow> s1\<lparr>env := e\<rparr> | None \<Rightarrow> s1)"
  let ?sC = "(if truthy_s (npxPkg av) then emit (UpdateNotifier (tmpl (npxPkg av))) ?sB else ?sB)"
  have e0: "env s0 = env s"
    using assms(3) keeps_envD [of "localBinPath w (cwd w)" s "Fulfilled local" s0]
    by (simp add: localBinPath_def keeps_env_then_p)
  have e1: "env s1 = env ?sA"
    using assms(4) keeps_envD [OF keeps_env_all2 [OF keeps_env_existing_path keeps_env_new_env]]
    by blast
  have eC: "env ?sC = (case newEnv of Some e \<Rightarrow> e | None \<Rightarrow> env ?sA)"
    using e1 by (simp add: emit_def split: option.splits)
  have e2: "env s2 = (env ?sC)(''PATH'' \<mapsto> info_bin results @ PATH_SEP w @ tmpl (env ?sC ''PATH''))"
    using ensurePackages_env [OF assms(6)] .
  let ?s4 = "(case (added results, updated results) of
                (Some a, Some u) \<Rightarrow>
                  if \<not> q av then s2\<lparr>stderr := stderr s2 @ [installed_message w (a + u)]\<rparr> else s2
              | _ \<Rightarrow> s2)"
  have e4: "env ?s4 = env s2" by (simp split: option.splits)
  let ?loc = "(if truthy_s (command av) \<and> \<not> truthy existing \<and> \<not> packageRequested av
                  \<and> length (package av) = 1
               then commandLocator w (tmpl (command av)) (info_bin results)
               else resolved existing)"
  have kloc: "keeps_env ?loc" by simp
  have res: "resolve_existing w av (existing, newEnv) s1 = ?loc ?s4"
    using assms(5,6)
    by (simp add: resolve_existing_def installs_def then_p_def Let_def resolved_def)
  let ?rest = "\<lambda>x. catch_p (then_p (\<lambda>s. x) (\<lambda>existing. execCommand n w existing av)) (report_failure av)"
  have krest: "\<And>p. keeps_env p \<Longrightarrow>
      keeps_env (catch_p (then_p p (\<lambda>existing. execCommand n w existing av)) (report_failure av))"
    by (intro keeps_env_catch_p keeps_env_then_p) simp_all
  have main: "npx_main n w av local s0 =
      catch_p (then_p ?loc (\<lambda>existing. execCommand n w existing av)) (report_failure av) ?s4"
    using assms(4) res
    by (simp add: npx_main_def catch_p_def then_else_def then_p_def split: prod.splits outcome.splits)
  have "env (snd (npx_main n w av local s0)) = env ?s4"
    unfolding main using krest [OF kloc] by (simp add: keeps_env_def)
  moreover have "npx n w av s = npx_main n w av local s0"
    using assms(1,2,3) by (rule npx_main_reached)
  ultimately have "env (snd (npx n w av s)) = env s2" using e4 by simp
  moreover have "newEnv = None \<longleftrightarrow> \<not> truthy_s (call av)"
    using assms(4) by (rule captured_iff_call)
  ultimately show ?thesis
    using e2 eC e0 by (simp add: PATH_SEP_def prepend_PATH_def split: option.splits)
qed

theorem install_path_first_witness:
  "env (snd (npx 1 demo_host demo_argv demo_proc)) ''PATH'' =
     Some ''/home/u/.npm/_npx/4242/bin:/proj/node_modules/.bin:/usr/bin:/bin''
   \<and> env (snd (npx 1 (demo_host\<lparr>win32 := True\<rparr>) demo_argv demo_proc)) ''PATH'' =
     Some ''/home/u/.npm/_npx/4242;/proj/node_modules/.bin;/usr/bin:/bin''
   \<and> env (snd (npx 1 demo_host (demo_argv\<lparr>call := Some ''foo'', packageRequested := True\<rparr>) demo_proc)) ''PATH'' =
     Some ''/home/u/.npm/_npx/4242/bin:/usr/bin''"
proof -
  let ?s0 = "demo_proc\<lparr>trace := [GetPrefix ''/proj'']\<rparr>"
  let ?local = "''/proj/node_modules/.bin''"
  let ?w = "demo_host\<lparr>win32 := True\<rparr>"
  let ?av = "demo_argv\<lparr>call := Some ''foo'', packageRequested := True\<rparr>"
  have l: "localBinPath demo_host (cwd demo_host) demo_proc = (Fulfilled ?local, ?s0)"
    by (simp add: step_simps run_simps demo_simps)
  have a: "all2 (env_settles_first demo_host) (existing_path demo_host demo_argv) (new_env demo_host demo_argv)
             (if ?local \<noteq> [] then prepend_PATH demo_host ?local ?s0 else ?s0)
           = (Fulfilled (JUndefined, None),
              demo_proc\<lparr>env := [''PATH'' \<mapsto> ''/proj/node_modules/.bin:/usr/bin:/bin''],
                         trace := [GetPrefix ''/proj'', Which ''foo'']\<rparr>)"
    by (simp add: step_simps run_simps demo_simps)
  have e: "fst (ensurePackages demo_host (package demo_argv) demo_argv
             (demo_proc\<lparr>env := [''PATH'' \<mapsto> ''/proj/node_modules/.bin:/usr/bin:/bin''],
                         trace := [GetPrefix ''/proj'', Which ''foo'']\<rparr>))
           = Fulfilled \<lparr>added = Some 1, updated = Some 0,
                         info_prefix = ''/home/u/.npm/_npx/4242'',
                         info_bin = ''/home/u/.npm/_npx/4242/bin''\<rparr>"
    by (simp add: step_simps run_simps demo_simps)
  have 1: "env (snd (npx 1 demo_host demo_argv demo_proc)) ''PATH'' =
     Some ''/home/u/.npm/_npx/4242/bin:/proj/node_modules/.bin:/usr/bin:/bin''"
    using install_path_first [where w = demo_host and av = demo_argv and s = demo_proc and n = 1,
        OF _ _ l a] pair_fst_snd [OF e]
    by (simp add: demo_simps)
  have l2: "localBinPath ?w (cwd ?w) demo_proc = (Fulfilled ?local, ?s0)"
    by (simp add: step_simps run_simps demo_simps)
  have a2: "all2 (env_settles_first ?w) (existing_path ?w demo_argv) (new_env ?w demo_argv)
             (if ?local \<noteq> [] then prepend_PATH ?w ?local ?s0 else ?s0)
           = (Fulfilled (JUndefined, None),
              demo_proc\<lparr>env := [''PATH'' \<mapsto> ''/proj/node_modules/.bin;/usr/bin:/bin''],
                         trace := [GetPrefix ''/proj'', Which ''foo'']\<rparr>)"
    by (simp add: step_simps run_simps demo_simps)
  have e2: "fst (ensurePackages ?w (package demo_argv) demo_argv
             (demo_proc\<lparr>env := [''PATH'' \<mapsto> ''/proj/node_modules/.bin;/usr/bin:/bin''],
                         trace := [GetPrefix ''/proj'', Which ''foo'']\<rparr>))
           = Fulfilled \<lparr>added = Some 1, updated = Some 0,
                         info_prefix = ''/home/u/.npm/_npx/4242'',
                         info_bin = ''/home/u/.npm/_npx/4242''\<rparr>"
    by (simp add: step_simps run_simps demo_simps)
  have 2: "env (snd (npx 1 ?w demo_argv demo_proc)) ''PATH'' =
     Some ''/home/u/.npm/_npx/4242;/proj/node_modules/.bin;/usr/bin:/bin''"
    using install_path_first [where w = ?w and av = demo_argv and s = demo_proc and n = 1,
        OF _ _ l2 a2] pair_fst_snd [OF e2]
    by (simp add: demo_simps)
  have a3: "all2 (env_settles_first demo_host) (existing_path demo_host ?av) (new_env demo_host ?av)
             (if ?local \<noteq> [] then prepend_PATH demo_host ?local ?s0 else ?s0)
           = (Fulfilled (JFalse, Some [''PATH'' \<mapsto> ''/usr/bin'']),
              demo_proc\<lparr>env := [''PATH'' \<mapsto> ''/proj/node_modules/.bin:/usr/bin:/bin''],
                         trace := [GetPrefix ''/proj'', Exec ''npm'' [''run'', ''env'', ''--parseable'']]\<rparr>)"
    by (simp add: step_simps run_simps demo_simps)
  have e3: "fst (ensurePackages demo_host (package ?av) ?av
             (demo_proc\<lparr>env := [''PATH'' \<mapsto> ''/usr/bin''],
                         trace := [GetPrefix ''/proj'', Exec ''npm'' [''run'', ''env'', ''--parseable'']]\<rparr>))
           = Fulfilled \<lparr>added = Some 1, updated = Some 0,
                         info_prefix = ''/home/u/.npm/_npx/4242'',
                         info_bin = ''/home/u/.npm/_npx/4242/bin''\<rparr>"
    by (simp add: step_simps run_simps demo_simps)
  have 3: "env (snd (npx 1 demo_host ?av demo_proc)) ''PATH'' = Some ''/home/u/.npm/_npx/4242/bin:/usr/bin''"
    using install_path_first [where w = demo_host and av = ?av and s = demo_proc and n = 1,
        OF _ _ l a3] pair_fst_snd [OF e3]
    by (simp add: demo_simps)
  from 1 2 3 show ?thesis by simp
qed

text \<open>
  C6.  \<open>getExistingPath\<close>: a command marked local is returned as it is; otherwise a
  version pin, an explicitly requested package or ignore-existing give \<open>false\<close>;
  otherwise the search path is searched, a miss (\<open>ENOENT\<close>) becomes the falsy result
  \<open>undefined\<close> unless \<open>install\<close> is \<open>false\<close>, in which case the error is passed on
  with exit code 127, and any other error of the search is passed on unchanged.
\<close>

theorem getExistingPath_cases:
  "(isLocal opts \<longrightarrow> getExistingPath w cmd opts s = (Fulfilled (JStr cmd), s))
   \<and> (\<not> isLocal opts \<and> (cmdHadVersion opts \<or> packageRequested opts \<or> ignoreExisting opts) \<longrightarrow>
        getExistingPath w cmd opts s = (Fulfilled JFalse, s))
   \<and> (\<not> isLocal opts \<and> \<not> cmdHadVersion opts \<and> \<not> packageRequested opts \<and> \<not> ignoreExisting opts \<longrightarrow>
        (which w (env s) cmd = Fulfilled p \<longrightarrow>
           fst (getExistingPath w cmd opts s) = Fulfilled (JStr p))
      \<and> (which w (env s) cmd = Rejected err \<and> code err = Some ''ENOENT'' \<and> install opts \<noteq> Some False \<longrightarrow>
           fst (getExistingPath w cmd opts s) = Fulfilled JUndefined \<and> \<not> truthy JUndefined)
      \<and> (which w (env s) cmd = Rejected err \<and> code err = Some ''ENOENT'' \<and> install opts = Some False \<longrightarrow>
           fst (getExistingPath w cmd opts s) = Rejected (err\<lparr>exitCode := Some 127\<rparr>))
      \<and> (which w (env s) cmd = Rejected err \<and> code err \<noteq> Some ''ENOENT'' \<longrightarrow>
           fst (getExistingPath w cmd opts s) = Rejected err))"
  by (simp add: getExistingPath_def then_else_def which_p_def ask_def resolved_def rejected_def)

theorem getExistingPath_cases_witness:
  "getExistingPath demo_host ''./run.js'' (demo_argv\<lparr>isLocal := True\<rparr>) demo_proc
     = (Fulfilled (JStr ''./run.js''), demo_proc)
   \<and> getExistingPath demo_host ''foo'' (demo_argv\<lparr>cmdHadVersion := True\<rparr>) demo_proc
     = (Fulfilled JFalse, demo_proc)
   \<and> fst (getExistingPath demo_host ''ls'' demo_argv demo_proc) = Fulfilled (JStr ''/bin/ls'')
   \<and> fst (getExistingPath demo_host ''foo'' demo_argv demo_proc) = Fulfilled JUndefined
   \<and> fst (getExistingPath demo_host ''foo'' (demo_argv\<lparr>install := Some False\<rparr>) demo_proc)
     = Rejected ((ENOENT ''foo'')\<lparr>exitCode := Some 127\<rparr>)
   \<and> fst (getExistingPath (demo_host\<lparr>which := (\<lambda>e c. Rejected (Error ''EACCES''))\<rparr>)
            ''foo'' (demo_argv\<lparr>install := Some False\<rparr>) demo_proc)
     = Rejected (Error ''EACCES'')"
  using getExistingPath_cases [where w = demo_host and cmd = "''./run.js''"
      and opts = "demo_argv\<lparr>isLocal := True\<rparr>" and s = demo_proc]
    getExistingPath_cases [where w = demo_host and cmd = "''foo''"
      and opts = "demo_argv\<lparr>cmdHadVersion := True\<rparr>" and s = demo_proc]
    getExistingPath_cases [where w = demo_host and cmd = "''ls''"
      and opts = demo_argv and s = demo_proc and p = "''/bin/ls''"]
    getExistingPath_cases [where w = demo_host and cmd = "''foo''"
      and opts = demo_argv and s = demo_proc and err = "ENOENT ''foo''"]
    getExistingPath_cases [where w = demo_host and cmd = "''foo''"
      and opts = "demo_argv\<lparr>install := Some False\<rparr>" and s = demo_proc and err = "ENOENT ''foo''"]
    getExistingPath_cases [where w = "demo_host\<lparr>which := (\<lambda>e c. Rejected (Error ''EACCES''))\<rparr>"
      and cmd = "''foo''" and opts = "demo_argv\<lparr>install := Some False\<rparr>" and s = demo_proc
      and err = "Error ''EACCES''"]
  by (simp add: demo_simps Error_def)

text \<open>
  C7.  When the install subprocess of the package manager fails with an exit code that
  is not zero, the error that \<open>installPackages\<close> passes on has the message
  "Install for", the specifiers, "failed with code" and the exit code, keeps that exit
  code, and \<open>npx\<close> ends with \<open>process.exitCode\<close> set to it; the message is written to
  the error stream unless the request is quiet.
\<close>

theorem install_failure_exit_code:
  fixes w :: host and c :: string
  defines "prefix \<equiv> path_join w [c, ''_npx'', show_nat (pid w)]"
  defines "bins \<equiv> (if win32 w then prefix else path_join w [prefix, ''bin''])"
  assumes "shell_auto_fallback av = None"
    and "truthy_s (call av) \<or> truthy_s (command av)"
    and "localBinPath w (cwd w) s = (Fulfilled local, s0)"
    and "all2 (env_settles_first w) (existing_path w av) (new_env w av)
           (if local \<noteq> [] then prepend_PATH w local s0 else s0) = (Fulfilled (existing, newEnv), s1)"
    and "(\<not> truthy existing \<and> \<not> truthy_s (call av)) \<or> packageRequested av"
    and "(if truthy_s (cache av) then resolved (tmpl (cache av)) else getNpmCache w av)
           (emit (EnsurePackages (package av))
              (if truthy_s (npxPkg av)
               then emit (UpdateNotifier (tmpl (npxPkg av)))
                      (case newEnv of Some e \<Rightarrow> s1\<lparr>env := e\<rparr> | None \<Rightarrow> s1)
               else (case newEnv of Some e \<Rightarrow> s1\<lparr>env := e\<rparr> | None \<Rightarrow> s1)))
         = (Fulfilled c, s2)"
    and "rimraf w bins = Fulfilled ()"
    and "which w (env s2) (npm av) = Fulfilled npmPath"
    and "child_spawn w (env s2) npmPath (buildArgs (package av) prefix av) (q av) = Rejected err"
    and "exitCode err = Some ec"
    and "ec \<noteq> 0"
  shows "npx n w av s =
           (Fulfilled (),
            s2\<lparr>trace := trace s2 @ [OnExit prefix, Rimraf bins, Which (npm av),
                                     Spawn npmPath (buildArgs (package av) prefix av)],
               stderr := (if q av then stderr s2
                          else stderr s2 @ [''Install for '' @ join_comma (package av)
                                            @ '' failed with code '' @ show_int ec]),
               process_exitCode := Some ec\<rparr>)
       \<and> fst (installPackages w (package av) prefix av s2) =
           Rejected (err\<lparr>message := ''Install for '' @ join_comma (package av)
                                      @ '' failed with code '' @ show_int ec\<rparr>)
       \<and> exitCode (err\<lparr>message := ''Install for '' @ join_comma (package av)
                                      @ '' failed with code '' @ show_int ec\<rparr>) = Some ec"
proof -
  let ?sB = "(case newEnv of Some e \<Rightarrow> s1\<lparr>env := e\<rparr> | None \<Rightarrow> s1)"
  let ?sC = "(if truthy_s (npxPkg av) then emit (UpdateNotifier (tmpl (npxPkg av))) ?sB else ?sB)"
  let ?M = "''Install for '' @ join_comma (package av) @ '' failed with code '' @ show_int ec"
  let ?s3 = "s2\<lparr>trace := trace s2 @ [OnExit prefix, Rimraf bins, Which (npm av),
                                     Spawn npmPath (buildArgs (package av) prefix av)]\<rparr>"
  have f: "install_failure (package av) err = err\<lparr>message := ?M\<rparr>"
    using assms(12,13) by (simp add: install_failure_def install_failed_message_def Y_def)
  have ens: "ensurePackages w (package av) av ?sC = (Rejected (err\<lparr>message := ?M\<rparr>), ?s3)"
    using ensurePackages_fails [OF assms(8) assms(9) [unfolded bins_def prefix_def] assms(10)
        assms(11) [unfolded prefix_def]] f
    by (simp add: bins_def prefix_def)
  have res: "resolve_existing w av (existing, newEnv) s1 = (Rejected (err\<lparr>message := ?M\<rparr>), ?s3)"
    using assms(7) ens
    by (simp add: resolve_existing_def installs_def then_p_def Let_def)
  have main: "npx_main n w av local s0 = report_failure av (err\<lparr>message := ?M\<rparr>) ?s3"
    using assms(6) res
    by (simp add: npx_main_def catch_p_def then_else_def then_p_def)
  have "npx n w av s = report_failure av (err\<lparr>message := ?M\<rparr>) ?s3"
    using npx_main_reached [OF assms(3-5)] main by simp
  moreover have "fst (installPackages w (package av) prefix av s2) = Rejected (err\<lparr>message := ?M\<rparr>)"
    using installPackages_fails [OF assms(10,11)] f by simp
  ultimately show ?thesis
    using assms(12,13) by (simp add: report_failure_def)
qed

theorem install_failure_exit_code_witness:
  "process_exitCode (snd (npx 1
       (demo_host\<lparr>child_spawn := (\<lambda>e f a quiet. Rejected
          \<lparr>message = ''Command failed'', code = None, exitCode = Some 1, isOperational = False\<rparr>)\<rparr>)
       demo_argv demo_proc)) = Some 1
   \<and> stderr (snd (npx 1
       (demo_host\<lparr>child_spawn := (\<lambda>e f a quiet. Rejected
          \<lparr>message = ''Command failed'', code = None, exitCode = Some 1, isOperational = False\<rparr>)\<rparr>)
       demo_argv demo_proc)) = [''Install for foo failed with code 1'']"
proof -
  let ?err = "\<lparr>message = ''Command failed'', code = None, exitCode = Some (1::int), isOperational = False\<rparr>"
  let ?w = "demo_host\<lparr>child_spawn := (\<lambda>e f a quiet. Rejected ?err)\<rparr>"
  let ?s0 = "demo_proc\<lparr>trace := [GetPrefix ''/proj'']\<rparr>"
  let ?local = "''/proj/node_modules/.bin''"
  let ?s1 = "demo_proc\<lparr>env := [''PATH'' \<mapsto> ''/proj/node_modules/.bin:/usr/bin:/bin''],
                         trace := [GetPrefix ''/proj'', Which ''foo'']\<rparr>"
  let ?s2 = "demo_proc\<lparr>env := [''PATH'' \<mapsto> ''/proj/node_modules/.bin:/usr/bin:/bin''],
                         trace := [GetPrefix ''/proj'', Which ''foo'', EnsurePackages [''foo''],
                                   Which ''npm'',
                                   Exec ''/usr/bin/npm'' [''config'', ''get'', ''cache'', ''--parseable'']]\<rparr>"
  have l: "localBinPath ?w (cwd ?w) demo_proc = (Fulfilled ?local, ?s0)"
    by (simp add: step_simps run_simps demo_simps)
  have a: "all2 (env_settles_first ?w) (existing_path ?w demo_argv) (new_env ?w demo_argv)
             (if ?local \<noteq> [] then prepend_PATH ?w ?local ?s0 else ?s0)
           = (Fulfilled (JUndefined, None), ?s1)"
    by (simp add: step_simps run_simps demo_simps)
  have c: "(if truthy_s (cache demo_argv) then resolved (tmpl (cache demo_argv)) else getNpmCache ?w demo_argv)
           (emit (EnsurePackages (package demo_argv))
              (if truthy_s (npxPkg demo_argv)
               then emit (UpdateNotifier (tmpl (npxPkg demo_argv)))
                      (case None of Some e \<Rightarrow> ?s1\<lparr>env := e\<rparr> | None \<Rightarrow> ?s1)
               else (case None of Some e \<Rightarrow> ?s1\<lparr>env := e\<rparr> | None \<Rightarrow> ?s1)))
         = (Fulfilled ''/home/u/.npm'', ?s2)"
    by (simp add: step_simps run_simps demo_simps)
  have i: "(\<not> truthy JUndefined \<and> \<not> truthy_s (call demo_argv)) \<or> packageRequested demo_argv"
    by (simp add: demo_simps)
  have x: "exitCode ?err = Some 1" "(1::int) \<noteq> 0" by simp_all
  show ?thesis
    using install_failure_exit_code [where w = ?w and av = demo_argv and s = demo_proc and n = 1
        and err = ?err and npmPath = "''/usr/bin/npm''", OF _ _ l a i c _ _ _ x]
    by (simp add: demo_simps show_nat.simps show_int_def buildArgs_def)
qed

text \<open>
  C8, as the claim states it, fails: when the request is quiet (\<open>argv.q\<close>), the message
  of a child failure that is not operational is not written; only the exit code is set.
\<close>

theorem quiet_failure_prints_nothing:
  "q (demo_argv\<lparr>command := Some ''ls'', q := True\<rparr>)
   \<and> child_runCommand (demo_host\<lparr>child_runCommand := (\<lambda>e x a. Rejected (Error ''spawn failed''))\<rparr>)
       [''PATH'' \<mapsto> ''/proj/node_modules/.bin:/usr/bin:/bin''] JFalse
       (demo_argv\<lparr>command := Some ''ls'', q := True\<rparr>) = Rejected (Error ''spawn failed'')
   \<and> \<not> isOperational (Error ''spawn failed'')
   \<and> npx 1 (demo_host\<lparr>child_runCommand := (\<lambda>e x a. Rejected (Error ''spawn failed''))\<rparr>)
         (demo_argv\<lparr>command := Some ''ls'', q := True\<rparr>) demo_proc
     = (Fulfilled (),
        demo_proc\<lparr>env := [''PATH'' \<mapsto> ''/proj/node_modules/.bin:/usr/bin:/bin''],
                   process_exitCode := Some 1, stderr := [],
                   trace := [GetPrefix ''/proj'', Which ''ls'', Stat ''/bin/ls'', Open ''/bin/ls'',
                             Read 8 20 0, Close 8, RunCommand JFalse]\<rparr>)"
  by (simp add: npx_simps run_simps demo_simps)

text \<open>
  C8 (amended).  In the spawn path, a child failure that is operational and carries an
  exit code that is not zero sets \<open>process.exitCode\<close> to that code and raises nothing
  more, so nothing is written to the error stream; every other child failure is thrown
  again unchanged, so that \<open>npx\<close> sets a non-zero exit code (the attached one, else 1)
  and writes the message of the failure unless the request is quiet.
\<close>

theorem child_failure_exit_code:
  assumes "shell_auto_fallback av = None"
    and "truthy_s (call av) \<or> truthy_s (command av)"
    and "localBinPath w (cwd w) s = (Fulfilled local, s0)"
    and "then_p (all2 (env_settles_first w) (existing_path w av) (new_env w av))
           (resolve_existing w av)
           (if local \<noteq> [] then prepend_PATH w local s0 else s0) = (Fulfilled existing0, s1)"
    and "findNodeScript n w existing0 (Some av) s1 = (Fulfilled existing, s2)"
    and "\<not> takes_over w av s2 existing"
    and "child_runCommand w (env s2) existing av = Rejected err"
  shows "(isOperational err \<and> truthy_code (exitCode err) \<longrightarrow>
            npx n w av s =
              (Fulfilled (),
               s2\<lparr>trace := trace s2 @ [RunCommand existing], process_exitCode := exitCode err\<rparr>))
       \<and> (\<not> (isOperational err \<and> truthy_code (exitCode err)) \<longrightarrow>
            fst (execCommand n w existing0 av s1) = Rejected err
            \<and> npx n w av s =
              (Fulfilled (),
               s2\<lparr>trace := trace s2 @ [RunCommand existing],
                  stderr := (if q av then stderr s2 else stderr s2 @ [message err]),
                  process_exitCode :=
                    (if truthy_code (exitCode err) then exitCode err else Some 1)\<rparr>))"
proof -
  have ex: "execCommand n w existing0 av s1 = runCommand w existing av s2"
    using assms(5,6) by (simp add: execCommand_def then_p_def)
  have main: "npx n w av s = catch_p (runCommand w existing av) (report_failure av) s2"
    using npx_main_reached [OF assms(1-3)] assms(4) ex
    by (simp add: npx_main_def catch_p_def then_else_def then_p_def split: prod.splits outcome.splits)
  show ?thesis
    unfolding main ex
    using assms(7)
    by (simp add: runCommand_def catch_p_def then_else_def ask_def emit_def resolved_def
        rejected_def report_failure_def)
qed

theorem child_failure_exit_code_witness:
  "npx 1 (demo_host\<lparr>child_runCommand := (\<lambda>e x a. Rejected
            \<lparr>message = ''exited with 3'', code = None, exitCode = Some 3, isOperational = True\<rparr>)\<rparr>)
       (demo_argv\<lparr>command := Some ''ls''\<rparr>) demo_proc
     = (Fulfilled (),
        demo_proc\<lparr>env := [''PATH'' \<mapsto> ''/proj/node_modules/.bin:/usr/bin:/bin''],
                   process_exitCode := Some 3, stderr := [],
                   trace := [GetPrefix ''/proj'', Which ''ls'', Stat ''/bin/ls'', Open ''/bin/ls'',
                             Read 8 20 0, Close 8, RunCommand JFalse]\<rparr>)
   \<and> npx 1 (demo_host\<lparr>child_runCommand := (\<lambda>e x a. Rejected (Error ''spawn failed''))\<rparr>)
       (demo_argv\<lparr>command := Some ''ls''\<rparr>) demo_proc
     = (Fulfilled (),
        demo_proc\<lparr>env := [''PATH'' \<mapsto> ''/proj/node_modules/.bin:/usr/bin:/bin''],
                   process_exitCode := Some 1, stderr := [''spawn failed''],
                   trace := [GetPrefix ''/proj'', Which ''ls'', Stat ''/bin/ls'', Open ''/bin/ls'',
                             Read 8 20 0, Close 8, RunCommand JFalse]\<rparr>)"
proof -
  let ?op = "\<lparr>message = ''exited with 3'', code = None, exitCode = Some (3::int), isOperational = True\<rparr>"
  let ?wa = "demo_host\<lparr>child_runCommand := (\<lambda>e x a. Rejected ?op)\<rparr>"
  let ?wb = "demo_host\<lparr>child_runCommand := (\<lambda>e x a. Rejected (Error ''spawn failed''))\<rparr>"
  let ?av = "demo_argv\<lparr>command := Some ''ls''\<rparr>"
  let ?s0 = "demo_proc\<lparr>trace := [GetPrefix ''/proj'']\<rparr>"
  let ?local = "''/proj/node_modules/.bin''"
  let ?s1 = "demo_proc\<lparr>env := [''PATH'' \<mapsto> ''/proj/node_modules/.bin:/usr/bin:/bin''],
                         trace := [GetPrefix ''/proj'', Which ''ls'']\<rparr>"
  let ?s2 = "demo_proc\<lparr>env := [''PATH'' \<mapsto> ''/proj/node_modules/.bin:/usr/bin:/bin''],
                         trace := [GetPrefix ''/proj'', Which ''ls'', Stat ''/bin/ls'', Open ''/bin/ls'',
                                   Read 8 20 0, Close 8]\<rparr>"
  have la: "localBinPath ?wa (cwd ?wa) demo_proc = (Fulfilled ?local, ?s0)"
    and lb: "localBinPath ?wb (cwd ?wb) demo_proc = (Fulfilled ?local, ?s0)"
    by (simp_all add: step_simps run_simps demo_simps)
  have ra: "then_p (all2 (env_settles_first ?wa) (existing_path ?wa ?av) (new_env ?wa ?av))
              (resolve_existing ?wa ?av)
              (if ?local \<noteq> [] then prepend_PATH ?wa ?local ?s0 else ?s0) = (Fulfilled (JStr ''/bin/ls''), ?s1)"
    and rb: "then_p (all2 (env_settles_first ?wb) (existing_path ?wb ?av) (new_env ?wb ?av))
              (resolve_existing ?wb ?av)
              (if ?local \<noteq> [] then prepend_PATH ?wb ?local ?s0 else ?s0) = (Fulfilled (JStr ''/bin/ls''), ?s1)"
    by (simp_all add: step_simps run_simps demo_simps)
  have fa: "findNodeScript 1 ?wa (JStr ''/bin/ls'') (Some ?av) ?s1 = (Fulfilled JFalse, ?s2)"
    and fb: "findNodeScript 1 ?wb (JStr ''/bin/ls'') (Some ?av) ?s1 = (Fulfilled JFalse, ?s2)"
    by (simp_all add: run_simps demo_simps)
  have ta: "\<not> takes_over ?wa ?av ?s2 JFalse" and tb: "\<not> takes_over ?wb ?av ?s2 JFalse"
    by (simp_all add: takes_over_def)
  have ca: "child_runCommand ?wa (env ?s2) JFalse ?av = Rejected ?op"
    and cb: "child_runCommand ?wb (env ?s2) JFalse ?av = Rejected (Error ''spawn failed'')"
    by (simp_all add: demo_simps)
  show ?thesis
    using child_failure_exit_code [OF _ _ la ra fa ta ca] child_failure_exit_code [OF _ _ lb rb fb tb cb]
    by (simp add: demo_simps Error_def)
qed

text \<open>
  C9.  On a host that provides \<open>Module.runMain\<close>, once the target is classified,
  \<open>execCommand\<close> takes over the process (yargs reset unless \<open>noYargs\<close>, then
  \<open>Module.runMain\<close> on the new \<open>process.argv\<close>) if and only if the classified target
  is truthy, \<open>argv.shell\<close> is falsy and the target differs from \<open>process.argv[1]\<close>; in
  every other case, also when the classification gave no target, it runs the command as
  a child process.
\<close>

theorem execCommand_strategy:
  assumes "findNodeScript n w existing0 (Some av) s = (Fulfilled existing, s1)"
    and "module_runMain w"
  shows "(truthy existing \<and> \<not> truthy_s (shell av) \<and> existing \<noteq> argv1 (process_argv s1) \<longrightarrow>
            trace (snd (execCommand n w existing0 av s)) =
              trace s1 @ (if noYargs av then [] else [YargsReset])
                @ [RunMain (take 1 (process_argv s1) @ [js_String existing] @ cmdOpts av)])
       \<and> (\<not> (truthy existing \<and> \<not> truthy_s (shell av) \<and> existing \<noteq> argv1 (process_argv s1)) \<longrightarrow>
            trace (snd (execCommand n w existing0 av s)) = trace s1 @ [RunCommand existing])"
  using assms
  by (simp add: execCommand_def then_p_def takes_over_def runCommand_trace runMain_trace)

theorem execCommand_strategy_witness:
  "module_runMain demo_host
   \<and> trace (snd (execCommand 1 demo_host (JStr ''/proj/tool'') demo_argv demo_proc)) =
       [Stat ''/proj/tool'', Open ''/proj/tool'', Read 4 20 0, Close 4, YargsReset,
        RunMain [''/usr/bin/node'', ''/proj/tool'']]
   \<and> trace (snd (execCommand 1 demo_host (JStr ''/proj/tool'') (demo_argv\<lparr>shell := Some ''/bin/sh''\<rparr>) demo_proc)) =
       [Stat ''/proj/tool'', Open ''/proj/tool'', Read 4 20 0, Close 4, RunCommand (JStr ''/proj/tool'')]
   \<and> trace (snd (execCommand 1 demo_host (JStr ''/bin/ls'') demo_argv demo_proc)) =
       [Stat ''/bin/ls'', Open ''/bin/ls'', Read 8 20 0, Close 8, RunCommand JFalse]
   \<and> trace (snd (execCommand 1 demo_host JUndefined demo_argv demo_proc)) = [RunCommand JFalse]"
proof -
  have m: "module_runMain demo_host" by (simp add: demo_simps)
  have a: "findNodeScript 1 demo_host (JStr ''/proj/tool'') (Some demo_argv) demo_proc =
      (Fulfilled (JStr ''/proj/tool''),
       demo_proc\<lparr>trace := [Stat ''/proj/tool'', Open ''/proj/tool'', Read 4 20 0, Close 4]\<rparr>)"
    by (simp add: run_simps demo_simps)
  have a': "findNodeScript 1 demo_host (JStr ''/proj/tool'') (Some (demo_argv\<lparr>shell := Some ''/bin/sh''\<rparr>)) demo_proc =
      (Fulfilled (JStr ''/proj/tool''),
       demo_proc\<lparr>trace := [Stat ''/proj/tool'', Open ''/proj/tool'', Read 4 20 0, Close 4]\<rparr>)"
    by (simp add: run_simps demo_simps)
  have b: "findNodeScript 1 demo_host (JStr ''/bin/ls'') (Some demo_argv) demo_proc =
      (Fulfilled JFalse,
       demo_proc\<lparr>trace := [Stat ''/bin/ls'', Open ''/bin/ls'', Read 8 20 0, Close 8]\<rparr>)"
    by (simp add: run_simps demo_simps)
  have c: "findNodeScript 1 demo_host JUndefined (Some demo_argv) demo_proc = (Fulfilled JFalse, demo_proc)"
    by (simp add: run_simps)
  show ?thesis
    using m execCommand_strategy [OF a m] execCommand_strategy [OF a' m]
      execCommand_strategy [OF b m] execCommand_strategy [OF c m]
    by (simp add: demo_simps)
qed

text \<open>
  C10.  On a POSIX platform, sniffing an existing regular file shorter than the 20 bytes
  of the shebang line raises nothing: the read gives fewer than 20 bytes, the rest of
  the zero-filled buffer keeps the comparison with the line from holding, the file is
  closed, and \<open>findNodeScript\<close> is fulfilled with \<open>false\<close>.
\<close>

theorem short_file_not_loadable:
  assumes "existing \<noteq> []"
    and "\<not> win32 w"
    and "fs_stat w existing = Fulfilled False"
    and "\<not> (opts_isLocal opts \<and> path_extname w existing = ''.js'')"
    and "fs_open w existing = Fulfilled fd"
    and "fs_read w fd 20 0 = Fulfilled bytes"
    and "length bytes < 20"
    and "fs_close w fd = Fulfilled ()"
  shows "findNodeScript (Suc n) w (JStr existing) opts s =
           (Fulfilled JFalse,
            s\<lparr>trace := trace s @ [Stat existing, Open existing, Read fd 20 0, Close fd]\<rparr>)"
proof -
  have "take 20 bytes \<noteq> line"
    using assms(7) line_length by (metis length_take min.strict_order_iff nat_neq_iff)
  moreover have "findNodeScript (Suc n) w (JStr existing) opts s = sniff w existing (emit (Stat existing) s)"
    using assms(1-4) by (simp add: findNodeScript_sniff_branch [where isDirectory = False])
  ultimately show ?thesis
    using assms(5,6,8) by (simp add: sniff_run emit_def)
qed

theorem short_file_not_loadable_witness:
  "\<not> win32 demo_host
   \<and> fs_stat demo_host ''/proj/pkg/lib.txt'' = Fulfilled False
   \<and> fs_read demo_host 3 20 0 = Fulfilled ''hello''
   \<and> length ''hello'' < (20::nat)
   \<and> findNodeScript 1 demo_host (JStr ''/proj/pkg/lib.txt'') (Some demo_argv) demo_proc =
       (Fulfilled JFalse,
        demo_proc\<lparr>trace := trace demo_proc @
          [Stat ''/proj/pkg/lib.txt'', Open ''/proj/pkg/lib.txt'', Read 3 20 0, Close 3]\<rparr>)"
proof -
  have h: "\<not> win32 demo_host" "fs_stat demo_host ''/proj/pkg/lib.txt'' = Fulfilled False"
    "\<not> (opts_isLocal (Some demo_argv) \<and> path_extname demo_host ''/proj/pkg/lib.txt'' = ''.js'')"
    "fs_open demo_host ''/proj/pkg/lib.txt'' = Fulfilled 3"
    "fs_read demo_host 3 20 0 = Fulfilled ''hello''"
    "fs_close demo_host 3 = Fulfilled ()"
    by (simp_all add: demo_simps)
  show ?thesis
    using h short_file_not_loadable [where w = demo_host and existing = "''/proj/pkg/lib.txt''"
        and opts = "Some demo_argv" and fd = 3 and bytes = "''hello''" and n = 0 and s = demo_proc]
    by simp
qed


end
